theory Spec2Isabelle
  imports Main
begin

section \<open>JavaScript values\<close>

text \<open>
  The server handles untyped JSON at run time: tool arguments arrive as parsed JSON and
  the remote API's payloads are whatever \<open>response.json()\<close> returns, whatever the
  TypeScript interfaces say. Values are therefore modelled as JSON values plus
  \<open>undefined\<close>. Numbers are the integers (the fractional and non-finite doubles are
  not modelled), each standing for the number whose shortest decimal numeral it is;
  strings are lists of characters, exact for ASCII text. An object is the association
  list of its own properties, read with \<open>map_of\<close>.
\<close>

datatype jsv =
    JUndefined
  | JNull
  | JBool bool
  | JNum int
  | JStr string
  | JArr "jsv list"
  | JObj "(string \<times> jsv) list"

text \<open>What a \<open>throw\<close> carries. \<open>ZodError\<close>, \<open>TypeError\<close> and \<open>OtherError\<close> are
  instances of \<open>Error\<close>; \<open>NonError\<close> is any other thrown value.\<close>

datatype pathElem = Key string | Idx nat

datatype zcode =
    invalid_type string string
  | too_small int
  | too_big int
  | invalid_enum_value "string list"

record zissue =
  code :: zcode
  path :: "pathElem list"

datatype thrown =
    ZodError "zissue list"
  | TypeError string
  | OtherError string
  | NonError

text \<open>Truthiness, as \<open>if (x)\<close>, \<open>x || y\<close> and \<open>x ? a : b\<close> test it.\<close>

fun truthy :: "jsv \<Rightarrow> bool" where
  "truthy JUndefined = False"
| "truthy JNull = False"
| "truthy (JBool b) = b"
| "truthy (JNum i) = (i \<noteq> 0)"
| "truthy (JStr s) = (s \<noteq> [])"
| "truthy (JArr xs) = True"
| "truthy (JObj kvs) = True"

definition orElse :: "jsv \<Rightarrow> jsv \<Rightarrow> jsv" where
  "orElse x y = (if truthy x then x else y)"

definition nullish :: "jsv \<Rightarrow> bool" where
  "nullish x = (x = JUndefined \<or> x = JNull)"

fun join :: "string \<Rightarrow> string list \<Rightarrow> string" where
  "join sep [] = []"
| "join sep [x] = x"
| "join sep (x # y # ys) = x @ sep @ join sep (y # ys)"

definition digitChar :: "nat \<Rightarrow> char" where
  "digitChar d = ''0123456789'' ! d"

fun digits :: "nat \<Rightarrow> string" where
  "digits n = (if n < 10 then [digitChar n] else digits (n div 10) @ [digitChar (n mod 10)])"

declare digits.simps [simp del]

text \<open>\<open>Number.prototype.toString\<close> on an integer: plain decimal digits up to 21 of
  them; from 22 digits on, the exponent form (\<open>1e+21\<close>, \<open>1.5e+21\<close>): the digits without
  their trailing zeros, a point after the first when more follow, and the exponent.\<close>

definition exponentForm :: "string \<Rightarrow> string" where
  "exponentForm ds =
     (case rev (dropWhile (\<lambda>ch. ch = CHR ''0'') (rev ds)) of
        [] \<Rightarrow> []
      | d # rest \<Rightarrow> d # (if rest = [] then [] else CHR ''.'' # rest)
                   @ ''e+'' @ digits (length ds - 1))"

definition numStr :: "int \<Rightarrow> string" where
  "numStr i =
     (if i < 0 then ''-'' else [])
     @ (if length (digits (nat \<bar>i\<bar>)) \<le> 21 then digits (nat \<bar>i\<bar>)
        else exponentForm (digits (nat \<bar>i\<bar>)))"

text \<open>String conversion, as a template literal \<open>`${x}`\<close> and \<open>Array.prototype.join\<close>
  perform it.\<close>

fun toStr :: "jsv \<Rightarrow> string" where
  "toStr JUndefined = ''undefined''"
| "toStr JNull = ''null''"
| "toStr (JBool b) = (if b then ''true'' else ''false'')"
| "toStr (JNum i) = numStr i"
| "toStr (JStr s) = s"
| "toStr (JArr xs) = join '','' (map (\<lambda>x. if x = JUndefined \<or> x = JNull then [] else toStr x) xs)"
| "toStr (JObj kvs) = ''[object Object]''"

text \<open>Property read \<open>v.k\<close>. Reading a property of \<open>null\<close> or \<open>undefined\<close> throws a
  \<open>TypeError\<close>; arrays and strings have \<open>length\<close>; none of the other names the
  program reads is a property of a prototype. The messages of the \<open>TypeError\<close>s are
  written as Node prints them; no property below depends on their wording.\<close>

definition getProp :: "jsv \<Rightarrow> string \<Rightarrow> thrown + jsv" where
  "getProp v k =
     (case v of
        JUndefined \<Rightarrow> Inl (TypeError (''Cannot read properties of undefined (reading '' @ [CHR 0x27] @ k @ [CHR 0x27] @ '')''))
      | JNull \<Rightarrow> Inl (TypeError (''Cannot read properties of null (reading '' @ [CHR 0x27] @ k @ [CHR 0x27] @ '')''))
      | JObj kvs \<Rightarrow> Inr (case map_of kvs k of None \<Rightarrow> JUndefined | Some x \<Rightarrow> x)
      | JArr xs \<Rightarrow> Inr (if k = ''length'' then JNum (int (length xs)) else JUndefined)
      | JStr s \<Rightarrow> Inr (if k = ''length'' then JNum (int (length s)) else JUndefined)
      | _ \<Rightarrow> Inr JUndefined)"

text \<open>Property read on a value already known not to be \<open>null\<close> or \<open>undefined\<close>
  (a validated parameter object, a value just tested truthy).\<close>

definition propOf :: "jsv \<Rightarrow> string \<Rightarrow> jsv" where
  "propOf v k = (case getProp v k of Inl e \<Rightarrow> JUndefined | Inr x \<Rightarrow> x)"

text \<open>Optional chaining \<open>v?.k\<close>.\<close>

definition optProp :: "jsv \<Rightarrow> string \<Rightarrow> jsv" where
  "optProp v k = (if nullish v then JUndefined else propOf v k)"

section \<open>The transport client (client.ts)\<close>

record environment =
  CHITCHATS_CLIENT_ID :: "string option"
  CHITCHATS_ACCESS_TOKEN :: "string option"
  CHITCHATS_BASE_URL :: "string option"

definition CLIENT_ID :: "environment \<Rightarrow> string option" where
  "CLIENT_ID env = CHITCHATS_CLIENT_ID env"

definition ACCESS_TOKEN :: "environment \<Rightarrow> string option" where
  "ACCESS_TOKEN env = CHITCHATS_ACCESS_TOKEN env"

definition BASE_URL :: "environment \<Rightarrow> string" where
  "BASE_URL env =
     (case CHITCHATS_BASE_URL env of
        None \<Rightarrow> ''https://chitchats.com''
      | Some u \<Rightarrow> if u \<noteq> [] then u else ''https://chitchats.com'')"

definition falsyEnv :: "string option \<Rightarrow> bool" where
  "falsyEnv v = (case v of None \<Rightarrow> True | Some s \<Rightarrow> s = [])"

text \<open>Module initialisation: the only reaction to a missing identifier or credential
  is one line on the error console.\<close>

definition moduleInit :: "environment \<Rightarrow> string list" where
  "moduleInit env =
     (if falsyEnv (CLIENT_ID env) \<or> falsyEnv (ACCESS_TOKEN env)
      then [''Missing CHITCHATS_CLIENT_ID or CHITCHATS_ACCESS_TOKEN in environment'']
      else [])"

record ChitChatsClient =
  baseUrl :: string
  clientId :: string
  accessToken :: string

definition newClient :: "environment \<Rightarrow> ChitChatsClient" where
  "newClient env =
     \<lparr> baseUrl = BASE_URL env @ ''/api/v1/clients/'' @
         (case CLIENT_ID env of None \<Rightarrow> ''undefined'' | Some i \<Rightarrow> i),
       clientId = (case CLIENT_ID env of None \<Rightarrow> [] | Some i \<Rightarrow> if i \<noteq> [] then i else []),
       accessToken = (case ACCESS_TOKEN env of None \<Rightarrow> [] | Some t \<Rightarrow> if t \<noteq> [] then t else []) \<rparr>"

record ApiResponse =
  data :: jsv
  error :: jsv
  status :: nat

text \<open>What \<open>fetch\<close> is called with, and what it answers. The body of a request is kept
  as the value \<open>JSON.stringify\<close> serialises. Of the response the client reads the
  status, the \<open>Retry-After\<close> header and the outcome of \<open>response.json()\<close>.\<close>

record httpRequest =
  url :: string
  httpMethod :: string
  headers :: "(string \<times> string) list"
  payload :: "jsv option"

record httpResponse =
  statusCode :: nat
  retryAfterHeader :: "string option"
  jsonBody :: "thrown + jsv"

datatype fetchResult = Rejected thrown | Responded httpResponse

definition ok :: "httpResponse \<Rightarrow> bool" where
  "ok r = (200 \<le> statusCode r \<and> statusCode r \<le> 299)"

text \<open>The remote host is a state machine outside the program; the world records every
  request sent to it.\<close>

record 'w world =
  sent :: "httpRequest list"
  remoteState :: 'w

record 'w ctx =
  processEnv :: environment
  remoteApi :: "'w \<Rightarrow> httpRequest \<Rightarrow> fetchResult \<times> 'w"
  zodMessage :: "zissue list \<Rightarrow> string"
  numericPositive :: "string \<Rightarrow> bool"

definition fetch :: "'w ctx \<Rightarrow> httpRequest \<Rightarrow> 'w world \<Rightarrow> fetchResult \<times> 'w world" where
  "fetch c rq w =
     (case remoteApi c (remoteState w) rq of
        (res, s') \<Rightarrow> (res, \<lparr> sent = sent w @ [rq], remoteState = s' \<rparr>))"

text \<open>\<open>err instanceof Error ? err.message : "Unknown error"\<close>\<close>

definition errMessage :: "'w ctx \<Rightarrow> thrown \<Rightarrow> string" where
  "errMessage c t =
     (case t of
        ZodError issues \<Rightarrow> zodMessage c issues
      | TypeError m \<Rightarrow> m
      | OtherError m \<Rightarrow> m
      | NonError \<Rightarrow> ''Unknown error'')"

definition caughtResponse :: "'w ctx \<Rightarrow> thrown \<Rightarrow> ApiResponse" where
  "caughtResponse c err = \<lparr> data = JUndefined, error = JStr (errMessage c err), status = 500 \<rparr>"

definition bodyGiven :: "jsv option \<Rightarrow> bool" where
  "bodyGiven body = (case body of None \<Rightarrow> False | Some b \<Rightarrow> truthy b)"

definition requestOptions :: "'w ctx \<Rightarrow> string \<Rightarrow> string \<Rightarrow> jsv option \<Rightarrow> httpRequest" where
  "requestOptions c meth endpoint body =
     \<lparr> url = baseUrl (newClient (processEnv c)) @ endpoint,
       httpMethod = meth,
       headers = [(''Authorization'', accessToken (newClient (processEnv c))),
                  (''Accept'', ''application/json'')]
                 @ (if bodyGiven body then [(''Content-Type'', ''application/json'')] else []),
       payload = (if bodyGiven body then body else None) \<rparr>"

definition request ::
  "'w ctx \<Rightarrow> string \<Rightarrow> string \<Rightarrow> jsv option \<Rightarrow> 'w world \<Rightarrow> ApiResponse \<times> 'w world" where
  "request c meth endpoint body w =
     (case fetch c (requestOptions c meth endpoint body) w of
        (Rejected err, w') \<Rightarrow> (caughtResponse c err, w')
      | (Responded response, w') \<Rightarrow>
          (if statusCode response = 429 then
             \<lparr> data = JUndefined,
               error = JStr (''Rate limited. Retry after '' @
                 (case retryAfterHeader response of
                    None \<Rightarrow> ''unknown''
                  | Some retryAfter \<Rightarrow> if retryAfter \<noteq> [] then retryAfter else ''unknown'')
                 @ '' seconds.''),
               status = 429 \<rparr>
           else if statusCode response = 204 then
             \<lparr> data = JUndefined, error = JUndefined, status = 204 \<rparr>
           else
             (case jsonBody response of
                Inl err \<Rightarrow> caughtResponse c err
              | Inr d \<Rightarrow>
                  if \<not> ok response then
                    (case getProp d ''error'' of
                       Inl err \<Rightarrow> caughtResponse c err
                     | Inr e \<Rightarrow>
                         \<lparr> data = JUndefined,
                           error = orElse e (orElse (propOf d ''message'')
                                     (JStr (''HTTP '' @ numStr (int (statusCode response))))),
                           status = statusCode response \<rparr>)
                  else \<lparr> data = d, error = JUndefined, status = statusCode response \<rparr>),
           w'))"

definition get :: "'w ctx \<Rightarrow> string \<Rightarrow> 'w world \<Rightarrow> ApiResponse \<times> 'w world" where
  "get c endpoint w = request c ''GET'' endpoint None w"

definition post :: "'w ctx \<Rightarrow> string \<Rightarrow> jsv option \<Rightarrow> 'w world \<Rightarrow> ApiResponse \<times> 'w world" where
  "post c endpoint body w = request c ''POST'' endpoint body w"

definition patch :: "'w ctx \<Rightarrow> string \<Rightarrow> jsv option \<Rightarrow> 'w world \<Rightarrow> ApiResponse \<times> 'w world" where
  "patch c endpoint body w = request c ''PATCH'' endpoint body w"

definition delete :: "'w ctx \<Rightarrow> string \<Rightarrow> 'w world \<Rightarrow> ApiResponse \<times> 'w world" where
  "delete c endpoint w = request c ''DELETE'' endpoint None w"

text \<open>Public tracking endpoint (no auth needed): \<open>fetch\<close> is called with the URL alone,
  so the method is the default and there are no headers.\<close>

definition getPublicTracking :: "'w ctx \<Rightarrow> jsv \<Rightarrow> 'w world \<Rightarrow> ApiResponse \<times> 'w world" where
  "getPublicTracking c shipmentId w =
     (case fetch c \<lparr> url = BASE_URL (processEnv c) @ ''/tracking/'' @ toStr shipmentId @ ''.json'',
                      httpMethod = ''GET'', headers = [], payload = None \<rparr> w of
        (Rejected err, w') \<Rightarrow> (caughtResponse c err, w')
      | (Responded response, w') \<Rightarrow>
          (case jsonBody response of
             Inl err \<Rightarrow> caughtResponse c err
           | Inr d \<Rightarrow> \<lparr> data = d, error = JUndefined, status = statusCode response \<rparr>,
           w'))"

section \<open>Parameter validation (zod, schemas.ts)\<close>

text \<open>
  The schemas are built from zod's \<open>z.object\<close>, \<open>z.string\<close>, \<open>z.number\<close> (with
  \<open>min\<close>/\<open>max\<close>), \<open>z.enum\<close>, \<open>z.array\<close> and \<open>optional\<close>; \<open>describe\<close> has no effect on
  validation. \<open>parse\<close> follows the library: the input must be an object, every key of
  the shape is checked against the input's value for it (\<open>undefined\<close> onlyIf the key is
  missing), all issues are collected, unknown keys are stripped, and a key of the shape
  is in the output exactly onlyIf it is in the input.
\<close>

datatype zschema =
    ZString
  | ZNumber "int option" "int option"
  | ZEnum "string list"
  | ZArray zschema
  | ZOptional zschema

fun parsedType :: "jsv \<Rightarrow> string" where
  "parsedType JUndefined = ''undefined''"
| "parsedType JNull = ''null''"
| "parsedType (JBool b) = ''boolean''"
| "parsedType (JNum i) = ''number''"
| "parsedType (JStr s) = ''string''"
| "parsedType (JArr xs) = ''array''"
| "parsedType (JObj kvs) = ''object''"

definition joinValues :: "string list \<Rightarrow> string" where
  "joinValues vals = join '' | '' (map (\<lambda>v. [CHR 0x27] @ v @ [CHR 0x27]) vals)"

fun checkValue :: "zschema \<Rightarrow> pathElem list \<Rightarrow> jsv \<Rightarrow> zissue list" where
  "checkValue (ZOptional t) p v = (if v = JUndefined then [] else checkValue t p v)"
| "checkValue ZString p v =
     (case v of
        JStr s \<Rightarrow> []
      | _ \<Rightarrow> [\<lparr> code = invalid_type ''string'' (parsedType v), path = p \<rparr>])"
| "checkValue (ZNumber lo hi) p v =
     (case v of
        JNum n \<Rightarrow>
          (case lo of
             None \<Rightarrow> []
           | Some m \<Rightarrow> if n < m then [\<lparr> code = too_small m, path = p \<rparr>] else [])
          @ (case hi of
               None \<Rightarrow> []
             | Some m \<Rightarrow> if n > m then [\<lparr> code = too_big m, path = p \<rparr>] else [])
      | _ \<Rightarrow> [\<lparr> code = invalid_type ''number'' (parsedType v), path = p \<rparr>])"
| "checkValue (ZEnum vals) p v =
     (case v of
        JStr s \<Rightarrow> if s \<in> set vals then [] else [\<lparr> code = invalid_enum_value vals, path = p \<rparr>]
      | _ \<Rightarrow> [\<lparr> code = invalid_type (joinValues vals) (parsedType v), path = p \<rparr>])"
| "checkValue (ZArray t) p v =
     (case v of
        JArr xs \<Rightarrow> concat (map (\<lambda>(i, x). checkValue t (p @ [Idx i]) x) (enumerate 0 xs))
      | _ \<Rightarrow> [\<lparr> code = invalid_type ''array'' (parsedType v), path = p \<rparr>])"

definition parse :: "(string \<times> zschema) list \<Rightarrow> jsv \<Rightarrow> thrown + jsv" where
  "parse shape input =
     (case input of
        JObj kvs \<Rightarrow>
          (let issues = concat (map (\<lambda>(k, t). checkValue t [Key k] (propOf input k)) shape)
           in if issues = []
              then Inr (JObj (concat (map (\<lambda>(k, t). case map_of kvs k of
                                                        None \<Rightarrow> []
                                                      | Some v \<Rightarrow> [(k, v)]) shape)))
              else Inl (ZodError issues))
      | _ \<Rightarrow> Inl (ZodError [\<lparr> code = invalid_type ''object'' (parsedType input), path = [] \<rparr>]))"

definition ListShipmentsSchema :: "(string \<times> zschema) list" where
  "ListShipmentsSchema =
     [(''limit'', ZOptional (ZNumber (Some 1) (Some 1000))),
      (''page'', ZOptional (ZNumber (Some 1) None)),
      (''batch_id'', ZOptional ZString),
      (''status'', ZOptional ZString),
      (''from_date'', ZOptional ZString),
      (''to_date'', ZOptional ZString),
      (''search'', ZOptional ZString)]"

definition GetShipmentSchema :: "(string \<times> zschema) list" where
  "GetShipmentSchema = [(''id'', ZString)]"

definition CreateShipmentSchema :: "(string \<times> zschema) list" where
  "CreateShipmentSchema =
     [(''name'', ZString),
      (''address_1'', ZString),
      (''address_2'', ZOptional ZString),
      (''city'', ZString),
      (''province_code'', ZString),
      (''postal_code'', ZString),
      (''country_code'', ZString),
      (''phone'', ZOptional ZString),
      (''email'', ZOptional ZString),
      (''package_type'', ZOptional (ZEnum [''parcel'', ''thick_envelope'', ''flat_rate_envelope''])),
      (''size_unit'', ZOptional (ZEnum [''cm'', ''in''])),
      (''size_x'', ZOptional (ZNumber None None)),
      (''size_y'', ZOptional (ZNumber None None)),
      (''size_z'', ZOptional (ZNumber None None)),
      (''weight_unit'', ZOptional (ZEnum [''g'', ''kg'', ''oz'', ''lb''])),
      (''weight'', ZOptional (ZNumber None None)),
      (''description'', ZOptional ZString),
      (''value'', ZOptional (ZNumber None None)),
      (''value_currency'', ZOptional (ZEnum [''CAD'', ''USD''])),
      (''order_id'', ZOptional ZString),
      (''order_store'', ZOptional ZString),
      (''postage_type'', ZOptional ZString)]"

definition DeleteShipmentSchema :: "(string \<times> zschema) list" where
  "DeleteShipmentSchema = [(''id'', ZString)]"

definition BuyPostageSchema :: "(string \<times> zschema) list" where
  "BuyPostageSchema = [(''id'', ZString)]"

definition RefundShipmentSchema :: "(string \<times> zschema) list" where
  "RefundShipmentSchema = [(''id'', ZString)]"

definition RefreshRatesSchema :: "(string \<times> zschema) list" where
  "RefreshRatesSchema =
     [(''id'', ZString),
      (''size_x'', ZOptional (ZNumber None None)),
      (''size_y'', ZOptional (ZNumber None None)),
      (''size_z'', ZOptional (ZNumber None None)),
      (''weight'', ZOptional (ZNumber None None))]"

definition CountShipmentsSchema :: "(string \<times> zschema) list" where
  "CountShipmentsSchema = [(''status'', ZOptional ZString)]"

definition ListBatchesSchema :: "(string \<times> zschema) list" where
  "ListBatchesSchema =
     [(''limit'', ZOptional (ZNumber (Some 1) (Some 1000))),
      (''page'', ZOptional (ZNumber (Some 1) None)),
      (''status'', ZOptional (ZEnum [''pending'', ''received'']))]"

definition CreateBatchSchema :: "(string \<times> zschema) list" where
  "CreateBatchSchema = [(''description'', ZOptional ZString)]"

definition GetBatchSchema :: "(string \<times> zschema) list" where
  "GetBatchSchema = [(''id'', ZString)]"

definition DeleteBatchSchema :: "(string \<times> zschema) list" where
  "DeleteBatchSchema = [(''id'', ZString)]"

definition AddToBatchSchema :: "(string \<times> zschema) list" where
  "AddToBatchSchema = [(''batch_id'', ZString), (''shipment_ids'', ZArray ZString)]"

definition RemoveFromBatchSchema :: "(string \<times> zschema) list" where
  "RemoveFromBatchSchema = [(''shipment_ids'', ZArray ZString)]"

definition CountBatchesSchema :: "(string \<times> zschema) list" where
  "CountBatchesSchema = [(''status'', ZOptional (ZEnum [''pending'', ''received'']))]"

definition ListReturnsSchema :: "(string \<times> zschema) list" where
  "ListReturnsSchema =
     [(''limit'', ZOptional (ZNumber (Some 1) (Some 1000))),
      (''page'', ZOptional (ZNumber (Some 1) None)),
      (''status'', ZOptional ZString),
      (''reason'', ZOptional ZString)]"

definition TrackShipmentSchema :: "(string \<times> zschema) list" where
  "TrackShipmentSchema = [(''id'', ZString)]"

section \<open>Helpers of the tool handlers\<close>

abbreviation nl :: string where
  "nl \<equiv> [CHR 0x0A]"

definition onlyIf :: "bool \<Rightarrow> 'a list \<Rightarrow> 'a list" where
  "onlyIf b xs = (if b then xs else [])"

definition has :: "jsv \<Rightarrow> string \<Rightarrow> bool" where
  "has v k = truthy (propOf v k)"

definition tpl :: "jsv \<Rightarrow> string \<Rightarrow> string" where
  "tpl v k = toStr (propOf v k)"

definition tplOr :: "jsv \<Rightarrow> string \<Rightarrow> string \<Rightarrow> string" where
  "tplOr v k d = toStr (orElse (propOf v k) (JStr d))"

text \<open>\<open>if (v.k) lines.push(`<prefix>${v.k}`)\<close>\<close>

definition labelled :: "jsv \<Rightarrow> string \<Rightarrow> string \<Rightarrow> string list" where
  "labelled v k prefix = onlyIf (has v k) [prefix @ tpl v k]"

definition bindE :: "thrown + 'a \<Rightarrow> ('a \<Rightarrow> thrown + 'b) \<Rightarrow> thrown + 'b" where
  "bindE m f = (case m of Inl e \<Rightarrow> Inl e | Inr x \<Rightarrow> f x)"

fun mapE :: "('a \<Rightarrow> thrown + 'b) \<Rightarrow> 'a list \<Rightarrow> thrown + 'b list" where
  "mapE f [] = Inr []"
| "mapE f (x # xs) =
     (case f x of
        Inl e \<Rightarrow> Inl e
      | Inr y \<Rightarrow> (case mapE f xs of Inl e \<Rightarrow> Inl e | Inr ys \<Rightarrow> Inr (y # ys)))"

text \<open>\<open>x > 0\<close>: the operand is converted to a number first. The conversion of a
  string is the platform's (\<open>numericPositive\<close> says whether the result is above zero);
  an array converts through its string, an object to \<open>NaN\<close>.\<close>

definition jsGt0 :: "'w ctx \<Rightarrow> jsv \<Rightarrow> bool" where
  "jsGt0 c x =
     (case x of
        JUndefined \<Rightarrow> False
      | JNull \<Rightarrow> False
      | JBool b \<Rightarrow> b
      | JNum n \<Rightarrow> 0 < n
      | JStr s \<Rightarrow> numericPositive c s
      | JArr xs \<Rightarrow> numericPositive c (toStr x)
      | JObj kvs \<Rightarrow> False)"

text \<open>\<open>expr.map(f)\<close>: only an array has \<open>map\<close>.\<close>

definition arrayMap :: "string \<Rightarrow> jsv \<Rightarrow> (jsv \<Rightarrow> thrown + 'b) \<Rightarrow> thrown + 'b list" where
  "arrayMap expr v f =
     (case v of
        JArr xs \<Rightarrow> mapE f xs
      | _ \<Rightarrow> Inl (TypeError (expr @ ''.map is not a function'')))"

text \<open>\<open>for (const x of expr)\<close>: arrays and strings are iterable.\<close>

definition iterate :: "string \<Rightarrow> jsv \<Rightarrow> thrown + jsv list" where
  "iterate expr v =
     (case v of
        JArr xs \<Rightarrow> Inr xs
      | JStr s \<Rightarrow> Inr (map (\<lambda>ch. JStr [ch]) s)
      | _ \<Rightarrow> Inl (TypeError (expr @ '' is not iterable'')))"

definition upperChar :: "char \<Rightarrow> char" where
  "upperChar ch =
     (if 97 \<le> (of_char ch :: nat) \<and> (of_char ch :: nat) \<le> 122
      then char_of ((of_char ch :: nat) - 32) else ch)"

definition toUpperCase :: "string \<Rightarrow> jsv \<Rightarrow> thrown + string" where
  "toUpperCase expr v =
     (case v of
        JStr s \<Rightarrow> Inr (map upperChar s)
      | JUndefined \<Rightarrow> bindE (getProp v ''toUpperCase'') (\<lambda>x. Inr [])
      | JNull \<Rightarrow> bindE (getProp v ''toUpperCase'') (\<lambda>x. Inr [])
      | _ \<Rightarrow> Inl (TypeError (expr @ ''.toUpperCase is not a function'')))"

text \<open>\<open>[...new Set(xs)]\<close>: first occurrences in order; two parsed objects or arrays are
  never the same value.\<close>

definition sameValueZero :: "jsv \<Rightarrow> jsv \<Rightarrow> bool" where
  "sameValueZero a b = (case a of JArr xs \<Rightarrow> False | JObj kvs \<Rightarrow> False | _ \<Rightarrow> a = b)"

fun setAdd :: "jsv list \<Rightarrow> jsv list \<Rightarrow> jsv list" where
  "setAdd seen [] = seen"
| "setAdd seen (x # xs) =
     (if list_ex (\<lambda>y. sameValueZero y x) seen then setAdd seen xs else setAdd (seen @ [x]) xs)"

text \<open>\<open>URLSearchParams\<close>: every parameter the handlers set has a name of its own, so
  \<open>set\<close> appends; \<open>toString\<close> is the form-urlencoded serialisation.\<close>

definition isUnreserved :: "char \<Rightarrow> bool" where
  "isUnreserved ch =
     ((48 \<le> (of_char ch :: nat) \<and> (of_char ch :: nat) \<le> 57)
      \<or> (65 \<le> (of_char ch :: nat) \<and> (of_char ch :: nat) \<le> 90)
      \<or> (97 \<le> (of_char ch :: nat) \<and> (of_char ch :: nat) \<le> 122)
      \<or> ch \<in> set ''*-._'')"

definition hexChar :: "nat \<Rightarrow> char" where
  "hexChar d = ''0123456789ABCDEF'' ! d"

definition formEncode :: "string \<Rightarrow> string" where
  "formEncode s =
     concat (map (\<lambda>ch. if isUnreserved ch then [ch]
                        else if ch = CHR '' '' then ''+''
                        else [CHR ''%'', hexChar ((of_char ch :: nat) div 16),
                              hexChar ((of_char ch :: nat) mod 16)]) s)"

definition queryString :: "(string \<times> string) list \<Rightarrow> string" where
  "queryString ps = join ''&'' (map (\<lambda>(k, v). formEncode k @ ''='' @ formEncode v) ps)"

text \<open>\<open>if (params.k) queryParams.set("k", params.k)\<close> (with \<open>toString()\<close> for a number)\<close>

definition setIf :: "jsv \<Rightarrow> string \<Rightarrow> (string \<times> string) list" where
  "setIf params k = onlyIf (has params k) [(k, tpl params k)]"

definition withQuery :: "string \<Rightarrow> (string \<times> string) list \<Rightarrow> string" where
  "withQuery base ps = base @ (if queryString ps \<noteq> [] then ''?'' @ queryString ps else [])"

text \<open>\<open>if (params.k) body.k = params.k\<close>\<close>

definition bodyIf :: "jsv \<Rightarrow> string \<Rightarrow> (string \<times> jsv) list" where
  "bodyIf params k = onlyIf (has params k) [(k, propOf params k)]"

section \<open>Shipment tools (tools/shipments.ts)\<close>

text \<open>
  Every handler awaits one client call and then formats the response. The formatting
  is a function of the validated parameters and the response, named \<open>...Text\<close>; a
  \<open>TypeError\<close> raised while formatting is the \<open>Inl\<close> result.
\<close>

definition shipmentSummary :: "'w ctx \<Rightarrow> jsv \<Rightarrow> thrown + string" where
  "shipmentSummary c s =
     bindE (getProp s ''id'') (\<lambda>sid.
     bindE (if has s ''line_items'' \<and> jsGt0 c (propOf (propOf s ''line_items'') ''length'')
            then bindE (arrayMap ''s.line_items'' (propOf s ''line_items'')
                          (\<lambda>li. getProp li ''hs_tariff_code''))
                   (\<lambda>codes. Inr (onlyIf (setAdd [] (filter truthy codes) \<noteq> [])
                      [''HS Codes: '' @ join '', '' (map toStr (setAdd [] (filter truthy codes)))]))
            else Inr [])
       (\<lambda>hsLines. Inr (join nl
          ([''ID: '' @ toStr sid,
            ''Status: '' @ tpl s ''status'',
            ''Recipient: '' @ tpl s ''to_name'' @ '', '' @ tpl s ''to_city'' @ '', ''
               @ tpl s ''to_province_code'' @ '', '' @ tpl s ''to_country_code'']
           @ labelled s ''order_id'' ''Order ID: ''
           @ labelled s ''carrier'' ''Carrier: ''
           @ labelled s ''postage_type'' ''Postage Type: ''
           @ labelled s ''purchase_amount'' ''Total Cost: $''
           @ labelled s ''carrier_tracking_code'' ''Tracking: ''
           @ hsLines
           @ labelled s ''created_at'' ''Created: ''))))"

definition listShipmentsEndpoint :: "jsv \<Rightarrow> string" where
  "listShipmentsEndpoint params =
     withQuery ''/shipments''
       (setIf params ''limit'' @ setIf params ''page'' @ setIf params ''batch_id''
        @ setIf params ''status'' @ setIf params ''from_date'' @ setIf params ''to_date''
        @ setIf params ''search'')"

definition listShipmentsText :: "'w ctx \<Rightarrow> jsv \<Rightarrow> ApiResponse \<Rightarrow> thrown + string" where
  "listShipmentsText c params response =
     (if truthy (error response)
      then Inr (''Error listing shipments: '' @ toStr (error response))
      else if propOf (orElse (data response) (JArr [])) ''length'' = JNum 0
      then Inr ''No shipments found matching your criteria.''
      else bindE (arrayMap ''shipments'' (orElse (data response) (JArr [])) (shipmentSummary c))
             (\<lambda>formatted. Inr (''Found '' @ tpl (orElse (data response) (JArr [])) ''length''
                @ '' shipment(s):'' @ nl @ nl @ join (nl @ nl @ ''---'' @ nl @ nl) formatted)))"

definition listShipments ::
  "'w ctx \<Rightarrow> jsv \<Rightarrow> 'w world \<Rightarrow> (thrown + string) \<times> 'w world" where
  "listShipments c params w =
     (case get c (listShipmentsEndpoint params) w of
        (response, w') \<Rightarrow> (listShipmentsText c params response, w'))"

text \<open>The body of the loop over \<open>s.line_items\<close> in \<open>getShipment\<close>.\<close>

definition shipmentLineItem :: "jsv \<Rightarrow> thrown + string list" where
  "shipmentLineItem item =
     bindE (getProp item ''quantity'') (\<lambda>quantity.
     bindE (toUpperCase ''item.currency_code'' (propOf item ''currency_code'')) (\<lambda>currency.
       Inr ([''**'' @ toStr quantity @ ''x '' @ tpl item ''description'' @ ''**'',
             ''  - Value: $'' @ tpl item ''value_amount'' @ '' '' @ currency]
            @ labelled item ''hs_tariff_code'' ''  - HS Code: ''
            @ labelled item ''sku_code'' ''  - SKU: ''
            @ labelled item ''origin_country'' ''  - Origin: ''
            @ onlyIf (has item ''weight'')
                [''  - Weight: '' @ tpl item ''weight'' @ '' '' @ tplOr item ''weight_unit'' ''g'']
            @ onlyIf (has item ''manufacturer_id'')
                ([''  - Manufacturer ID: '' @ tpl item ''manufacturer_id'']
                 @ onlyIf (has item ''manufacturer_city'')
                     [''  - Manufacturer: '' @ tpl item ''manufacturer_city'' @ '', ''
                        @ tplOr item ''manufacturer_province_code'' []]))))"

text \<open>The body of the loop over \<open>s.rates\<close> in \<open>getShipment\<close>.\<close>

definition shipmentRate :: "jsv \<Rightarrow> thrown + string list" where
  "shipmentRate rate =
     bindE (getProp rate ''postage_description'') (\<lambda>description.
       Inr ([''**'' @ toStr description @ ''** ('' @ tpl rate ''postage_type'' @ '')'',
             ''  - Cost: $'' @ toStr (orElse (propOf rate ''payment_amount'')
                                              (propOf rate ''purchase_amount''))]
            @ labelled rate ''delivery_time_description'' ''  - Delivery: ''
            @ labelled rate ''tracking_type_description'' ''  - Tracking: ''
            @ labelled rate ''tariff_fee'' ''  - Tariff: $''))"

text \<open>\<open>if (v && v.length > 0) { lines.push(...heading); for (const x of v) { body } }\<close>\<close>

definition forOfSection ::
  "'w ctx \<Rightarrow> string \<Rightarrow> jsv \<Rightarrow> string list \<Rightarrow> (jsv \<Rightarrow> thrown + string list) \<Rightarrow> thrown + string list" where
  "forOfSection c expr v heading body =
     (if truthy v \<and> jsGt0 c (propOf v ''length'')
      then bindE (iterate expr v) (\<lambda>items.
           bindE (mapE body items) (\<lambda>ls. Inr (heading @ concat ls)))
      else Inr [])"

definition getShipmentText :: "'w ctx \<Rightarrow> jsv \<Rightarrow> ApiResponse \<Rightarrow> thrown + string" where
  "getShipmentText c params response =
     (if truthy (error response)
      then Inr (''Error getting shipment: '' @ toStr (error response))
      else if \<not> truthy (optProp (data response) ''shipment'')
      then Inr (''Shipment '' @ tpl params ''id'' @ '' not found.'')
      else
        (let s = optProp (data response) ''shipment'';
             services = onlyIf (has s ''is_insured'') [''Insured'']
                      @ onlyIf (has s ''is_signature_requested'') [''Signature Required'']
                      @ onlyIf (has s ''is_delivery_duties_paid_requested'') [''DDP'']
                      @ onlyIf (has s ''is_media_mail_requested'') [''Media Mail'']
         in
         bindE (forOfSection c ''s.line_items'' (propOf s ''line_items'')
                  [[], ''### Line Items''] shipmentLineItem) (\<lambda>lineItems.
         bindE (forOfSection c ''s.rates'' (propOf s ''rates'')
                  [[], ''### Available Rates''] shipmentRate) (\<lambda>rates.
           Inr (join nl
             ([''## Shipment '' @ tpl s ''id'', [], ''**Status:** '' @ tpl s ''status'']
              @ labelled s ''order_id'' ''**Order ID:** ''
              @ labelled s ''order_store'' ''**Store:** ''
              @ labelled s ''batch_id'' ''**Batch ID:** ''
              @ [[], ''### Recipient'']
              @ [''**Name:** '' @ tpl s ''to_name'']
              @ onlyIf (has s ''to_address_1'')
                  [''**Address:** '' @ tpl s ''to_address_1''
                     @ (if has s ''to_address_2'' then '', '' @ tpl s ''to_address_2'' else [])]
              @ [''**City:** '' @ tpl s ''to_city'' @ '', '' @ tpl s ''to_province_code'' @ '' ''
                   @ tplOr s ''to_postal_code'' []]
              @ [''**Country:** '' @ tpl s ''to_country_code'']
              @ labelled s ''to_phone'' ''**Phone:** ''
              @ labelled s ''to_email'' ''**Email:** ''
              @ [[], ''### Package'']
              @ labelled s ''package_type'' ''**Type:** ''
              @ labelled s ''package_contents'' ''**Contents Type:** ''
              @ labelled s ''description'' ''**Description:** ''
              @ onlyIf (has s ''size_x'' \<and> has s ''size_y'' \<and> has s ''size_z'')
                  [''**Dimensions:** '' @ tpl s ''size_x'' @ '' x '' @ tpl s ''size_y'' @ '' x ''
                     @ tpl s ''size_z'' @ '' '' @ tplOr s ''size_unit'' []]
              @ onlyIf (has s ''weight'')
                  [''**Weight:** '' @ tpl s ''weight'' @ '' '' @ tplOr s ''weight_unit'' []]
              @ onlyIf (has s ''value'')
                  [''**Declared Value:** $'' @ tpl s ''value'' @ '' '' @ tplOr s ''value_currency'' []]
              @ onlyIf (services \<noteq> []) [''**Services:** '' @ join '', '' services]
              @ [[], ''### Shipping'']
              @ labelled s ''carrier'' ''**Carrier:** ''
              @ labelled s ''postage_type'' ''**Postage Type:** ''
              @ labelled s ''carrier_tracking_code'' ''**Tracking Number:** ''
              @ labelled s ''tracking_url'' ''**Tracking URL:** ''
              @ labelled s ''ship_date'' ''**Ship Date:** ''
              @ [[], ''### Cost Breakdown'']
              @ labelled s ''purchase_amount'' ''**Total Paid:** $''
              @ labelled s ''postage_fee'' ''- Postage: $''
              @ labelled s ''tariff_fee'' ''- Tariff/Duty: $''
              @ labelled s ''broker_conveyance_fee'' ''- Broker Fee: $''
              @ labelled s ''shipment_items_fee'' ''- Items Fee: $''
              @ labelled s ''insurance_fee'' ''- Insurance: $''
              @ labelled s ''delivery_fee'' ''- Delivery: $''
              @ labelled s ''fda_prior_notification_fee'' ''- FDA Fee: $''
              @ onlyIf (has s ''federal_tax'')
                  [''- '' @ tplOr s ''federal_tax_label'' ''Federal Tax'' @ '': $'' @ tpl s ''federal_tax'']
              @ onlyIf (has s ''provincial_tax'')
                  [''- '' @ tplOr s ''provincial_tax_label'' ''Provincial Tax'' @ '': $''
                     @ tpl s ''provincial_tax'']
              @ lineItems
              @ rates
              @ onlyIf (has s ''postage_label_png_url'' \<or> has s ''postage_label_pdf_url'')
                  ([[], ''### Labels'']
                   @ labelled s ''postage_label_png_url'' ''- PNG: ''
                   @ labelled s ''postage_label_pdf_url'' ''- PDF: ''
                   @ labelled s ''postage_label_zpl_url'' ''- ZPL: '')
              @ onlyIf (has s ''return_name'')
                  ([[], ''### Return Address'', tpl s ''return_name'']
                   @ labelled s ''return_address_1'' []
                   @ [tpl s ''return_city'' @ '', '' @ tpl s ''return_province_code'' @ '' ''
                        @ tpl s ''return_postal_code'',
                      tpl s ''return_country_code''])
              @ [[], ''**Created:** '' @ tpl s ''created_at'']))))))"

definition getShipment ::
  "'w ctx \<Rightarrow> jsv \<Rightarrow> 'w world \<Rightarrow> (thrown + string) \<times> 'w world" where
  "getShipment c params w =
     (case get c (''/shipments/'' @ tpl params ''id'') w of
        (response, w') \<Rightarrow> (getShipmentText c params response, w'))"

text \<open>The body of the loop over \<open>s.rates\<close> in \<open>getShipmentRates\<close>.\<close>

definition rateDetail :: "jsv \<Rightarrow> thrown + string list" where
  "rateDetail rate =
     bindE (getProp rate ''postage_description'') (\<lambda>description.
       Inr ([''### '' @ toStr description,
             ''- **Type:** '' @ tpl rate ''postage_type'',
             ''- **Carrier:** '' @ tpl rate ''postage_carrier_type'',
             ''- **Total Cost:** $'' @ toStr (orElse (propOf rate ''payment_amount'')
                                                      (propOf rate ''purchase_amount'')),
             ''  - Postage: $'' @ tpl rate ''postage_fee'']
            @ labelled rate ''tariff_fee'' ''  - Tariff: $''
            @ labelled rate ''broker_conveyance_fee'' ''  - Broker: $''
            @ labelled rate ''shipment_items_fee'' ''  - Items Fee: $''
            @ labelled rate ''insurance_fee'' ''  - Insurance: $''
            @ labelled rate ''delivery_time_description'' ''- **Delivery:** ''
            @ labelled rate ''tracking_type_description'' ''- **Tracking:** ''
            @ onlyIf (has rate ''is_insured'') [''- **Insured:** Yes'']
            @ [[]]))"

definition getShipmentRatesText :: "'w ctx \<Rightarrow> jsv \<Rightarrow> ApiResponse \<Rightarrow> thrown + string" where
  "getShipmentRatesText c params response =
     (if truthy (error response)
      then Inr (''Error getting shipment rates: '' @ toStr (error response))
      else if \<not> truthy (optProp (data response) ''shipment'')
      then Inr (''Shipment '' @ tpl params ''id'' @ '' not found.'')
      else
        (let s = optProp (data response) ''shipment'' in
         if \<not> has s ''rates'' \<or> propOf (propOf s ''rates'') ''length'' = JNum 0
         then Inr (''No rates available for shipment '' @ tpl params ''id''
                   @ ''. The shipment may already have postage purchased.'')
         else
           bindE (iterate ''s.rates'' (propOf s ''rates'')) (\<lambda>rates.
           bindE (mapE rateDetail rates) (\<lambda>ls.
             Inr (join nl
               ([''## Available Rates for Shipment '' @ tpl s ''id'',
                 [],
                 ''Destination: '' @ tpl s ''to_city'' @ '', '' @ tpl s ''to_province_code''
                    @ '', '' @ tpl s ''to_country_code'',
                 ''Package: '' @ tplOr s ''weight'' ''?'' @ '' '' @ tplOr s ''weight_unit'' ''g''
                    @ '', '' @ tplOr s ''size_x'' ''?'' @ ''x'' @ tplOr s ''size_y'' ''?''
                    @ ''x'' @ tplOr s ''size_z'' ''?'' @ '' '' @ tplOr s ''size_unit'' [],
                 []]
                @ concat ls))))))"

definition getShipmentRates ::
  "'w ctx \<Rightarrow> jsv \<Rightarrow> 'w world \<Rightarrow> (thrown + string) \<times> 'w world" where
  "getShipmentRates c params w =
     (case get c (''/shipments/'' @ tpl params ''id'') w of
        (response, w') \<Rightarrow> (getShipmentRatesText c params response, w'))"

definition getShipmentLabelsText :: "'w ctx \<Rightarrow> jsv \<Rightarrow> ApiResponse \<Rightarrow> thrown + string" where
  "getShipmentLabelsText c params response =
     (if truthy (error response)
      then Inr (''Error getting shipment labels: '' @ toStr (error response))
      else if \<not> truthy (optProp (data response) ''shipment'')
      then Inr (''Shipment '' @ tpl params ''id'' @ '' not found.'')
      else
        (let s = optProp (data response) ''shipment'' in
         if \<not> has s ''postage_label_png_url'' \<and> \<not> has s ''postage_label_pdf_url''
         then Inr (''No labels available for shipment '' @ tpl params ''id''
                   @ ''. Postage may not have been purchased yet.'')
         else
           Inr (join nl
             ([''## Labels for Shipment '' @ tpl s ''id'',
               [],
               ''Order: '' @ tplOr s ''order_id'' ''N/A'',
               ''Recipient: '' @ tpl s ''to_name'' @ '', '' @ tpl s ''to_city'' @ '', ''
                  @ tpl s ''to_country_code'',
               ''Carrier: '' @ tplOr s ''carrier'' ''N/A'',
               ''Tracking: '' @ tplOr s ''carrier_tracking_code'' ''N/A'',
               [],
               ''### Download URLs'']
              @ labelled s ''postage_label_png_url'' ''- **PNG:** ''
              @ labelled s ''postage_label_pdf_url'' ''- **PDF:** ''
              @ labelled s ''postage_label_zpl_url'' ''- **ZPL:** ''))))"

definition getShipmentLabels ::
  "'w ctx \<Rightarrow> jsv \<Rightarrow> 'w world \<Rightarrow> (thrown + string) \<times> 'w world" where
  "getShipmentLabels c params w =
     (case get c (''/shipments/'' @ tpl params ''id'') w of
        (response, w') \<Rightarrow> (getShipmentLabelsText c params response, w'))"

text \<open>The body of the loop over \<open>s.line_items\<close> in \<open>getShipmentLineItems\<close>.\<close>

definition lineItemDetail :: "jsv \<Rightarrow> thrown + string list" where
  "lineItemDetail item =
     bindE (getProp item ''description'') (\<lambda>description.
     bindE (toUpperCase ''item.currency_code'' (propOf item ''currency_code'')) (\<lambda>currency.
       Inr ([''### '' @ toStr description,
             ''- **Quantity:** '' @ tpl item ''quantity'',
             ''- **Value:** $'' @ tpl item ''value_amount'' @ '' '' @ currency]
            @ labelled item ''hs_tariff_code'' ''- **HS Tariff Code:** ''
            @ labelled item ''sku_code'' ''- **SKU:** ''
            @ labelled item ''origin_country'' ''- **Country of Origin:** ''
            @ onlyIf (has item ''weight'')
                [''- **Weight:** '' @ tpl item ''weight'' @ '' '' @ tplOr item ''weight_unit'' ''g'']
            @ onlyIf (has item ''manufacturer_id'')
                ([[], ''**Manufacturer:**'', ''  - ID: '' @ tpl item ''manufacturer_id'']
                 @ labelled item ''manufacturer_contact'' ''  - Contact: ''
                 @ labelled item ''manufacturer_street'' ''  - Address: ''
                 @ onlyIf (has item ''manufacturer_city'')
                     [''  - Location: '' @ tpl item ''manufacturer_city'' @ '', ''
                        @ tplOr item ''manufacturer_province_code'' [] @ '' ''
                        @ tplOr item ''manufacturer_postal_code'' []]
                 @ labelled item ''manufacturer_phone'' ''  - Phone: ''
                 @ labelled item ''manufacturer_email'' ''  - Email: '')
            @ [[]])))"

definition getShipmentLineItemsText :: "'w ctx \<Rightarrow> jsv \<Rightarrow> ApiResponse \<Rightarrow> thrown + string" where
  "getShipmentLineItemsText c params response =
     (if truthy (error response)
      then Inr (''Error getting line items: '' @ toStr (error response))
      else if \<not> truthy (optProp (data response) ''shipment'')
      then Inr (''Shipment '' @ tpl params ''id'' @ '' not found.'')
      else
        (let s = optProp (data response) ''shipment'' in
         if \<not> has s ''line_items'' \<or> propOf (propOf s ''line_items'') ''length'' = JNum 0
         then Inr (''No line items found for shipment '' @ tpl params ''id'' @ ''.'')
         else
           bindE (iterate ''s.line_items'' (propOf s ''line_items'')) (\<lambda>items.
           bindE (mapE lineItemDetail items) (\<lambda>ls.
             Inr (join nl
               ([''## Line Items for Shipment '' @ tpl s ''id'',
                 [],
                 ''Order: '' @ tplOr s ''order_id'' ''N/A'',
                 ''Recipient: '' @ tpl s ''to_name'' @ '', '' @ tpl s ''to_country_code'',
                 []]
                @ concat ls))))))"

definition getShipmentLineItems ::
  "'w ctx \<Rightarrow> jsv \<Rightarrow> 'w world \<Rightarrow> (thrown + string) \<times> 'w world" where
  "getShipmentLineItems c params w =
     (case get c (''/shipments/'' @ tpl params ''id'') w of
        (response, w') \<Rightarrow> (getShipmentLineItemsText c params response, w'))"

definition createShipmentBody :: "jsv \<Rightarrow> jsv" where
  "createShipmentBody params =
     JObj ([(''name'', propOf params ''name''),
            (''address_1'', propOf params ''address_1''),
            (''city'', propOf params ''city''),
            (''province_code'', propOf params ''province_code''),
            (''postal_code'', propOf params ''postal_code''),
            (''country_code'', propOf params ''country_code'')]
           @ bodyIf params ''address_2''
           @ bodyIf params ''phone''
           @ bodyIf params ''email''
           @ bodyIf params ''package_type''
           @ bodyIf params ''size_unit''
           @ bodyIf params ''size_x''
           @ bodyIf params ''size_y''
           @ bodyIf params ''size_z''
           @ bodyIf params ''weight_unit''
           @ bodyIf params ''weight''
           @ bodyIf params ''description''
           @ bodyIf params ''value''
           @ bodyIf params ''value_currency''
           @ bodyIf params ''order_id''
           @ bodyIf params ''order_store''
           @ bodyIf params ''postage_type'')"

definition createShipmentText :: "'w ctx \<Rightarrow> jsv \<Rightarrow> ApiResponse \<Rightarrow> thrown + string" where
  "createShipmentText c params response =
     (if truthy (error response)
      then Inr (''Error creating shipment: '' @ toStr (error response))
      else if \<not> truthy (optProp (data response) ''shipment'')
      then Inr ''Shipment created but no data returned.''
      else
        (let s = optProp (data response) ''shipment'' in
         Inr (''Shipment created successfully!'' @ nl @ nl @ ''ID: '' @ tpl s ''id'' @ nl
              @ ''Status: '' @ tpl s ''status'' @ nl
              @ ''Recipient: '' @ tpl s ''to_name'' @ '', '' @ tpl s ''to_city'' @ '', ''
              @ tpl s ''to_country_code'')))"

definition createShipment ::
  "'w ctx \<Rightarrow> jsv \<Rightarrow> 'w world \<Rightarrow> (thrown + string) \<times> 'w world" where
  "createShipment c params w =
     (case post c ''/shipments'' (Some (createShipmentBody params)) w of
        (response, w') \<Rightarrow> (createShipmentText c params response, w'))"

definition deleteShipmentText :: "'w ctx \<Rightarrow> jsv \<Rightarrow> ApiResponse \<Rightarrow> thrown + string" where
  "deleteShipmentText c params response =
     (if truthy (error response)
      then Inr (''Error deleting shipment: '' @ toStr (error response)
                @ ''. Note: Only unpaid shipments can be deleted.'')
      else Inr (''Shipment '' @ tpl params ''id'' @ '' deleted successfully.''))"

definition deleteShipment ::
  "'w ctx \<Rightarrow> jsv \<Rightarrow> 'w world \<Rightarrow> (thrown + string) \<times> 'w world" where
  "deleteShipment c params w =
     (case delete c (''/shipments/'' @ tpl params ''id'') w of
        (response, w') \<Rightarrow> (deleteShipmentText c params response, w'))"

definition buyPostageText :: "'w ctx \<Rightarrow> jsv \<Rightarrow> ApiResponse \<Rightarrow> thrown + string" where
  "buyPostageText c params response =
     (if truthy (error response)
      then Inr (''Error purchasing postage: '' @ toStr (error response))
      else if \<not> truthy (optProp (data response) ''shipment'')
      then Inr ''Postage purchase initiated. Poll the shipment status to check completion.''
      else
        (let s = optProp (data response) ''shipment'' in
         Inr (join nl
           ([''Postage purchased for shipment '' @ tpl s ''id'' @ ''!'',
             [],
             ''Status: '' @ tpl s ''status'']
            @ labelled s ''purchase_amount'' ''Total Cost: $''
            @ labelled s ''carrier_tracking_code'' ''Tracking Number: ''))))"

definition buyPostage ::
  "'w ctx \<Rightarrow> jsv \<Rightarrow> 'w world \<Rightarrow> (thrown + string) \<times> 'w world" where
  "buyPostage c params w =
     (case patch c (''/shipments/'' @ tpl params ''id'' @ ''/buy'') None w of
        (response, w') \<Rightarrow> (buyPostageText c params response, w'))"

definition refundShipmentText :: "'w ctx \<Rightarrow> jsv \<Rightarrow> ApiResponse \<Rightarrow> thrown + string" where
  "refundShipmentText c params response =
     (if truthy (error response)
      then Inr (''Error requesting refund: '' @ toStr (error response))
      else Inr (''Refund requested for shipment '' @ tpl params ''id''
                @ ''. Check shipment status for updates.''))"

definition refundShipment ::
  "'w ctx \<Rightarrow> jsv \<Rightarrow> 'w world \<Rightarrow> (thrown + string) \<times> 'w world" where
  "refundShipment c params w =
     (case patch c (''/shipments/'' @ tpl params ''id'' @ ''/refund'') None w of
        (response, w') \<Rightarrow> (refundShipmentText c params response, w'))"

definition refreshRatesBody :: "jsv \<Rightarrow> (string \<times> jsv) list" where
  "refreshRatesBody params =
     bodyIf params ''size_x'' @ bodyIf params ''size_y'' @ bodyIf params ''size_z''
     @ bodyIf params ''weight''"

text \<open>The body of the loop over \<open>s.rates\<close> in \<open>refreshRates\<close>.\<close>

definition refreshedRate :: "jsv \<Rightarrow> thrown + string list" where
  "refreshedRate rate =
     bindE (getProp rate ''postage_description'') (\<lambda>description.
       Inr [''- '' @ toStr description @ '': $''
            @ toStr (orElse (propOf rate ''payment_amount'') (propOf rate ''purchase_amount''))
            @ nl])"

definition refreshRatesText :: "'w ctx \<Rightarrow> jsv \<Rightarrow> ApiResponse \<Rightarrow> thrown + string" where
  "refreshRatesText c params response =
     (if truthy (error response)
      then Inr (''Error refreshing rates: '' @ toStr (error response))
      else if \<not> truthy (optProp (data response) ''shipment'')
      then Inr (''Rates refreshed for shipment '' @ tpl params ''id'' @ ''.'')
      else
        (let s = optProp (data response) ''shipment'' in
         bindE (forOfSection c ''s.rates'' (propOf s ''rates'')
                  [nl @ nl @ ''Available rates:'' @ nl] refreshedRate) (\<lambda>rates.
           Inr (''Rates refreshed for shipment '' @ tpl s ''id'' @ ''.'' @ nl @ nl
                @ ''Current postage type: '' @ tplOr s ''postage_type'' ''Not set''
                @ concat rates))))"

definition refreshRates ::
  "'w ctx \<Rightarrow> jsv \<Rightarrow> 'w world \<Rightarrow> (thrown + string) \<times> 'w world" where
  "refreshRates c params w =
     (case patch c (''/shipments/'' @ tpl params ''id'' @ ''/refresh'')
             (if refreshRatesBody params \<noteq> [] then Some (JObj (refreshRatesBody params)) else None) w of
        (response, w') \<Rightarrow> (refreshRatesText c params response, w'))"

text \<open>\<open>x ?? y\<close>\<close>

definition coalesce :: "jsv \<Rightarrow> jsv \<Rightarrow> jsv" where
  "coalesce x y = (if nullish x then y else x)"

definition statusText :: "jsv \<Rightarrow> string" where
  "statusText params =
     (if has params ''status''
      then '' with status '' @ [CHR 0x22] @ tpl params ''status'' @ [CHR 0x22]
      else [])"

definition countShipmentsText :: "'w ctx \<Rightarrow> jsv \<Rightarrow> ApiResponse \<Rightarrow> thrown + string" where
  "countShipmentsText c params response =
     (if truthy (error response)
      then Inr (''Error counting shipments: '' @ toStr (error response))
      else Inr (''Total shipments'' @ statusText params @ '': ''
                @ toStr (coalesce (optProp (data response) ''count'') (JNum 0))))"

definition countShipments ::
  "'w ctx \<Rightarrow> jsv \<Rightarrow> 'w world \<Rightarrow> (thrown + string) \<times> 'w world" where
  "countShipments c params w =
     (case get c (withQuery ''/shipments/count'' (setIf params ''status'')) w of
        (response, w') \<Rightarrow> (countShipmentsText c params response, w'))"

section \<open>Batch tools (tools/batches.ts)\<close>

definition batchSummary :: "jsv \<Rightarrow> thrown + string" where
  "batchSummary b =
     bindE (getProp b ''id'') (\<lambda>bid.
       Inr (join nl
         ([''ID: '' @ toStr bid, ''Status: '' @ tpl b ''status'']
          @ labelled b ''description'' ''Description: ''
          @ onlyIf (propOf b ''shipment_count'' \<noteq> JUndefined)
              [''Shipments: '' @ tpl b ''shipment_count'']
          @ [''Created: '' @ tpl b ''created_at''])))"

definition listBatchesText :: "'w ctx \<Rightarrow> jsv \<Rightarrow> ApiResponse \<Rightarrow> thrown + string" where
  "listBatchesText c params response =
     (if truthy (error response)
      then Inr (''Error listing batches: '' @ toStr (error response))
      else if propOf (orElse (data response) (JArr [])) ''length'' = JNum 0
      then Inr ''No batches found.''
      else bindE (arrayMap ''batches'' (orElse (data response) (JArr [])) batchSummary)
             (\<lambda>formatted. Inr (''Found '' @ tpl (orElse (data response) (JArr [])) ''length''
                @ '' batch(es):'' @ nl @ nl @ join (nl @ nl @ ''---'' @ nl @ nl) formatted)))"

definition listBatches ::
  "'w ctx \<Rightarrow> jsv \<Rightarrow> 'w world \<Rightarrow> (thrown + string) \<times> 'w world" where
  "listBatches c params w =
     (case get c (withQuery ''/batches''
                    (setIf params ''limit'' @ setIf params ''page'' @ setIf params ''status'')) w of
        (response, w') \<Rightarrow> (listBatchesText c params response, w'))"

definition createBatchText :: "'w ctx \<Rightarrow> jsv \<Rightarrow> ApiResponse \<Rightarrow> thrown + string" where
  "createBatchText c params response =
     (if truthy (error response)
      then Inr (''Error creating batch: '' @ toStr (error response))
      else if \<not> truthy (optProp (data response) ''batch'')
      then Inr ''Batch created but no data returned.''
      else
        (let b = optProp (data response) ''batch'' in
         Inr (''Batch created successfully!'' @ nl @ nl @ ''ID: '' @ tpl b ''id'' @ nl
              @ ''Status: '' @ tpl b ''status''
              @ (if has b ''description'' then nl @ ''Description: '' @ tpl b ''description''
                 else []))))"

definition createBatch ::
  "'w ctx \<Rightarrow> jsv \<Rightarrow> 'w world \<Rightarrow> (thrown + string) \<times> 'w world" where
  "createBatch c params w =
     (case post c ''/batches'' (Some (JObj (bodyIf params ''description''))) w of
        (response, w') \<Rightarrow> (createBatchText c params response, w'))"

definition getBatchText :: "'w ctx \<Rightarrow> jsv \<Rightarrow> ApiResponse \<Rightarrow> thrown + string" where
  "getBatchText c params response =
     (if truthy (error response)
      then Inr (''Error getting batch: '' @ toStr (error response))
      else if \<not> truthy (optProp (data response) ''batch'')
      then Inr (''Batch '' @ tpl params ''id'' @ '' not found.'')
      else
        (let b = optProp (data response) ''batch'' in
         Inr (join nl
           ([''## Batch '' @ tpl b ''id'', [], ''**Status:** '' @ tpl b ''status'']
            @ labelled b ''description'' ''**Description:** ''
            @ onlyIf (propOf b ''shipment_count'' \<noteq> JUndefined)
                [''**Shipments:** '' @ tpl b ''shipment_count'']
            @ [''**Created:** '' @ tpl b ''created_at'']))))"

definition getBatch ::
  "'w ctx \<Rightarrow> jsv \<Rightarrow> 'w world \<Rightarrow> (thrown + string) \<times> 'w world" where
  "getBatch c params w =
     (case get c (''/batches/'' @ tpl params ''id'') w of
        (response, w') \<Rightarrow> (getBatchText c params response, w'))"

definition deleteBatchText :: "'w ctx \<Rightarrow> jsv \<Rightarrow> ApiResponse \<Rightarrow> thrown + string" where
  "deleteBatchText c params response =
     (if truthy (error response)
      then Inr (''Error deleting batch: '' @ toStr (error response)
                @ ''. Note: Only empty batches can be deleted.'')
      else Inr (''Batch '' @ tpl params ''id'' @ '' deleted successfully.''))"

definition deleteBatch ::
  "'w ctx \<Rightarrow> jsv \<Rightarrow> 'w world \<Rightarrow> (thrown + string) \<times> 'w world" where
  "deleteBatch c params w =
     (case delete c (''/batches/'' @ tpl params ''id'') w of
        (response, w') \<Rightarrow> (deleteBatchText c params response, w'))"

definition addToBatchText :: "'w ctx \<Rightarrow> jsv \<Rightarrow> ApiResponse \<Rightarrow> thrown + string" where
  "addToBatchText c params response =
     (if truthy (error response)
      then Inr (''Error adding shipments to batch: '' @ toStr (error response))
      else Inr (''Successfully added '' @ tpl (propOf params ''shipment_ids'') ''length''
                @ '' shipment(s) to batch '' @ tpl params ''batch_id'' @ ''.''))"

definition addToBatch ::
  "'w ctx \<Rightarrow> jsv \<Rightarrow> 'w world \<Rightarrow> (thrown + string) \<times> 'w world" where
  "addToBatch c params w =
     (case patch c ''/shipments/add_to_batch''
             (Some (JObj [(''batch_id'', propOf params ''batch_id''),
                          (''shipment_ids'', propOf params ''shipment_ids'')])) w of
        (response, w') \<Rightarrow> (addToBatchText c params response, w'))"

definition removeFromBatchText :: "'w ctx \<Rightarrow> jsv \<Rightarrow> ApiResponse \<Rightarrow> thrown + string" where
  "removeFromBatchText c params response =
     (if truthy (error response)
      then Inr (''Error removing shipments from batch: '' @ toStr (error response))
      else Inr (''Successfully removed '' @ tpl (propOf params ''shipment_ids'') ''length''
                @ '' shipment(s) from their batches.''))"

definition removeFromBatch ::
  "'w ctx \<Rightarrow> jsv \<Rightarrow> 'w world \<Rightarrow> (thrown + string) \<times> 'w world" where
  "removeFromBatch c params w =
     (case patch c ''/shipments/remove_from_batch''
             (Some (JObj [(''shipment_ids'', propOf params ''shipment_ids'')])) w of
        (response, w') \<Rightarrow> (removeFromBatchText c params response, w'))"

definition countBatchesText :: "'w ctx \<Rightarrow> jsv \<Rightarrow> ApiResponse \<Rightarrow> thrown + string" where
  "countBatchesText c params response =
     (if truthy (error response)
      then Inr (''Error counting batches: '' @ toStr (error response))
      else Inr (''Total batches'' @ statusText params @ '': ''
                @ toStr (coalesce (optProp (data response) ''count'') (JNum 0))))"

definition countBatches ::
  "'w ctx \<Rightarrow> jsv \<Rightarrow> 'w world \<Rightarrow> (thrown + string) \<times> 'w world" where
  "countBatches c params w =
     (case get c (withQuery ''/batches/count'' (setIf params ''status'')) w of
        (response, w') \<Rightarrow> (countBatchesText c params response, w'))"

section \<open>Returns and tracking tools (tools/returns.ts, tools/tracking.ts)\<close>

definition returnSummary :: "jsv \<Rightarrow> thrown + string" where
  "returnSummary r =
     bindE (getProp r ''id'') (\<lambda>rid.
       Inr (join nl
         ([''ID: '' @ toStr rid, ''Status: '' @ tpl r ''status'']
          @ labelled r ''reason'' ''Reason: ''
          @ labelled r ''shipment_id'' ''Shipment ID: ''
          @ [''Created: '' @ tpl r ''created_at''])))"

definition listReturnsText :: "'w ctx \<Rightarrow> jsv \<Rightarrow> ApiResponse \<Rightarrow> thrown + string" where
  "listReturnsText c params response =
     (if truthy (error response)
      then Inr (''Error listing returns: '' @ toStr (error response))
      else if propOf (orElse (data response) (JArr [])) ''length'' = JNum 0
      then Inr ''No returns found matching your criteria.''
      else bindE (arrayMap ''returns'' (orElse (data response) (JArr [])) returnSummary)
             (\<lambda>formatted. Inr (''Found '' @ tpl (orElse (data response) (JArr [])) ''length''
                @ '' return(s):'' @ nl @ nl @ join (nl @ nl @ ''---'' @ nl @ nl) formatted)))"

definition listReturns ::
  "'w ctx \<Rightarrow> jsv \<Rightarrow> 'w world \<Rightarrow> (thrown + string) \<times> 'w world" where
  "listReturns c params w =
     (case get c (withQuery ''/returns''
                    (setIf params ''limit'' @ setIf params ''page'' @ setIf params ''status''
                     @ setIf params ''reason'')) w of
        (response, w') \<Rightarrow> (listReturnsText c params response, w'))"

text \<open>The body of the loop over \<open>tracking.events\<close>.\<close>

definition trackingEvent :: "jsv \<Rightarrow> thrown + string list" where
  "trackingEvent event =
     bindE (getProp event ''location'') (\<lambda>loc.
       Inr [''- **'' @ tpl event ''date'' @ '':** '' @ tpl event ''description''
            @ (if truthy loc then '' ('' @ toStr loc @ '')'' else [])])"

definition trackShipmentText :: "'w ctx \<Rightarrow> jsv \<Rightarrow> ApiResponse \<Rightarrow> thrown + string" where
  "trackShipmentText c params response =
     (if truthy (error response)
      then Inr (''Error getting tracking: '' @ toStr (error response))
      else if \<not> truthy (data response)
      then Inr (''No tracking information found for shipment '' @ tpl params ''id'' @ ''.'')
      else
        (let tracking = data response in
         bindE (forOfSection c ''tracking.events'' (propOf tracking ''events'')
                  [[], ''### Tracking History''] trackingEvent) (\<lambda>events.
           Inr (join nl
             ([''## Tracking for Shipment '' @ tpl params ''id'',
               [],
               ''**Status:** '' @ tplOr tracking ''status'' ''Unknown'']
              @ labelled tracking ''carrier'' ''**Carrier:** ''
              @ labelled tracking ''tracking_number'' ''**Tracking Number:** ''
              @ labelled tracking ''estimated_delivery'' ''**Estimated Delivery:** ''
              @ events)))))"

definition trackShipment ::
  "'w ctx \<Rightarrow> jsv \<Rightarrow> 'w world \<Rightarrow> (thrown + string) \<times> 'w world" where
  "trackShipment c params w =
     (case getPublicTracking c (propOf params ''id'') w of
        (response, w') \<Rightarrow> (trackShipmentText c params response, w'))"

section \<open>The tool catalogue and the call handler (index.ts)\<close>

record tool =
  toolName :: string
  readOnlyHint :: bool
  destructiveHint :: bool

text \<open>The \<open>tools\<close> array, without descriptions and input schemas (which the call
  handler does not read).\<close>

definition tools :: "tool list" where
  "tools =
     [\<lparr> toolName = ''chitchats_list_shipments'', readOnlyHint = True, destructiveHint = False \<rparr>,
      \<lparr> toolName = ''chitchats_get_shipment'', readOnlyHint = True, destructiveHint = False \<rparr>,
      \<lparr> toolName = ''chitchats_get_rates'', readOnlyHint = True, destructiveHint = False \<rparr>,
      \<lparr> toolName = ''chitchats_get_labels'', readOnlyHint = True, destructiveHint = False \<rparr>,
      \<lparr> toolName = ''chitchats_get_line_items'', readOnlyHint = True, destructiveHint = False \<rparr>,
      \<lparr> toolName = ''chitchats_create_shipment'', readOnlyHint = False, destructiveHint = False \<rparr>,
      \<lparr> toolName = ''chitchats_delete_shipment'', readOnlyHint = False, destructiveHint = True \<rparr>,
      \<lparr> toolName = ''chitchats_buy_postage'', readOnlyHint = False, destructiveHint = False \<rparr>,
      \<lparr> toolName = ''chitchats_refund_shipment'', readOnlyHint = False, destructiveHint = False \<rparr>,
      \<lparr> toolName = ''chitchats_refresh_rates'', readOnlyHint = False, destructiveHint = False \<rparr>,
      \<lparr> toolName = ''chitchats_count_shipments'', readOnlyHint = True, destructiveHint = False \<rparr>,
      \<lparr> toolName = ''chitchats_list_batches'', readOnlyHint = True, destructiveHint = False \<rparr>,
      \<lparr> toolName = ''chitchats_create_batch'', readOnlyHint = False, destructiveHint = False \<rparr>,
      \<lparr> toolName = ''chitchats_get_batch'', readOnlyHint = True, destructiveHint = False \<rparr>,
      \<lparr> toolName = ''chitchats_delete_batch'', readOnlyHint = False, destructiveHint = True \<rparr>,
      \<lparr> toolName = ''chitchats_add_to_batch'', readOnlyHint = False, destructiveHint = False \<rparr>,
      \<lparr> toolName = ''chitchats_remove_from_batch'', readOnlyHint = False, destructiveHint = False \<rparr>,
      \<lparr> toolName = ''chitchats_count_batches'', readOnlyHint = True, destructiveHint = False \<rparr>,
      \<lparr> toolName = ''chitchats_list_returns'', readOnlyHint = True, destructiveHint = False \<rparr>,
      \<lparr> toolName = ''chitchats_track_shipment'', readOnlyHint = True, destructiveHint = False \<rparr>]"

text \<open>The result of a tool call: \<open>content\<close> is always the one text item, \<open>isError\<close> is
  set only on the error paths (the success path returns no such field).\<close>

record CallToolResult =
  contentText :: string
  isError :: "bool option"

text \<open>\<open>handler(Schema.parse(args))\<close>: a failed parse throws before the handler runs.\<close>

definition invoke ::
  "'w ctx \<Rightarrow> (string \<times> zschema) list \<Rightarrow>
   ('w ctx \<Rightarrow> jsv \<Rightarrow> 'w world \<Rightarrow> (thrown + string) \<times> 'w world) \<Rightarrow>
   jsv \<Rightarrow> 'w world \<Rightarrow> (thrown + string) \<times> 'w world" where
  "invoke c schema handler args w =
     (case parse schema args of
        Inl err \<Rightarrow> (Inl err, w)
      | Inr params \<Rightarrow> handler c params w)"

text \<open>The \<open>switch\<close> over the tool name; \<open>None\<close> is the \<open>default\<close> branch.\<close>

definition switchName ::
  "'w ctx \<Rightarrow> string \<Rightarrow> jsv \<Rightarrow> 'w world \<Rightarrow> ((thrown + string) \<times> 'w world) option" where
  "switchName c name args w =
     (if name = ''chitchats_list_shipments''
        then Some (invoke c ListShipmentsSchema listShipments (orElse args (JObj [])) w)
      else if name = ''chitchats_get_shipment''
        then Some (invoke c GetShipmentSchema getShipment args w)
      else if name = ''chitchats_get_rates''
        then Some (invoke c GetShipmentSchema getShipmentRates args w)
      else if name = ''chitchats_get_labels''
        then Some (invoke c GetShipmentSchema getShipmentLabels args w)
      else if name = ''chitchats_get_line_items''
        then Some (invoke c GetShipmentSchema getShipmentLineItems args w)
      else if name = ''chitchats_create_shipment''
        then Some (invoke c CreateShipmentSchema createShipment args w)
      else if name = ''chitchats_delete_shipment''
        then Some (invoke c DeleteShipmentSchema deleteShipment args w)
      else if name = ''chitchats_buy_postage''
        then Some (invoke c BuyPostageSchema buyPostage args w)
      else if name = ''chitchats_refund_shipment''
        then Some (invoke c RefundShipmentSchema refundShipment args w)
      else if name = ''chitchats_refresh_rates''
        then Some (invoke c RefreshRatesSchema refreshRates args w)
      else if name = ''chitchats_count_shipments''
        then Some (invoke c CountShipmentsSchema countShipments (orElse args (JObj [])) w)
      else if name = ''chitchats_list_batches''
        then Some (invoke c ListBatchesSchema listBatches (orElse args (JObj [])) w)
      else if name = ''chitchats_create_batch''
        then Some (invoke c CreateBatchSchema createBatch (orElse args (JObj [])) w)
      else if name = ''chitchats_get_batch''
        then Some (invoke c GetBatchSchema getBatch args w)
      else if name = ''chitchats_delete_batch''
        then Some (invoke c DeleteBatchSchema deleteBatch args w)
      else if name = ''chitchats_add_to_batch''
        then Some (invoke c AddToBatchSchema addToBatch args w)
      else if name = ''chitchats_remove_from_batch''
        then Some (invoke c RemoveFromBatchSchema removeFromBatch args w)
      else if name = ''chitchats_count_batches''
        then Some (invoke c CountBatchesSchema countBatches (orElse args (JObj [])) w)
      else if name = ''chitchats_list_returns''
        then Some (invoke c ListReturnsSchema listReturns (orElse args (JObj [])) w)
      else if name = ''chitchats_track_shipment''
        then Some (invoke c TrackShipmentSchema trackShipment args w)
      else None)"

text \<open>The \<open>CallToolRequestSchema\<close> handler.\<close>

definition callTool ::
  "'w ctx \<Rightarrow> string \<Rightarrow> jsv \<Rightarrow> 'w world \<Rightarrow> CallToolResult \<times> 'w world" where
  "callTool c name args w =
     (case switchName c name args w of
        None \<Rightarrow> (\<lparr> contentText = ''Unknown tool: '' @ name, isError = Some True \<rparr>, w)
      | Some (Inr result, w') \<Rightarrow> (\<lparr> contentText = result, isError = None \<rparr>, w')
      | Some (Inl err, w') \<Rightarrow>
          (\<lparr> contentText = ''Error: '' @ errMessage c err, isError = Some True \<rparr>, w'))"

text \<open>What each case of the \<open>switch\<close> parses: its schema, and whether it parses
  \<open>args || {}\<close> rather than \<open>args\<close>.\<close>

definition toolSchema :: "string \<Rightarrow> ((string \<times> zschema) list \<times> bool) option" where
  "toolSchema name =
     (if name = ''chitchats_list_shipments'' then Some (ListShipmentsSchema, True)
      else if name = ''chitchats_get_shipment'' then Some (GetShipmentSchema, False)
      else if name = ''chitchats_get_rates'' then Some (GetShipmentSchema, False)
      else if name = ''chitchats_get_labels'' then Some (GetShipmentSchema, False)
      else if name = ''chitchats_get_line_items'' then Some (GetShipmentSchema, False)
      else if name = ''chitchats_create_shipment'' then Some (CreateShipmentSchema, False)
      else if name = ''chitchats_delete_shipment'' then Some (DeleteShipmentSchema, False)
      else if name = ''chitchats_buy_postage'' then Some (BuyPostageSchema, False)
      else if name = ''chitchats_refund_shipment'' then Some (RefundShipmentSchema, False)
      else if name = ''chitchats_refresh_rates'' then Some (RefreshRatesSchema, False)
      else if name = ''chitchats_count_shipments'' then Some (CountShipmentsSchema, True)
      else if name = ''chitchats_list_batches'' then Some (ListBatchesSchema, True)
      else if name = ''chitchats_create_batch'' then Some (CreateBatchSchema, True)
      else if name = ''chitchats_get_batch'' then Some (GetBatchSchema, False)
      else if name = ''chitchats_delete_batch'' then Some (DeleteBatchSchema, False)
      else if name = ''chitchats_add_to_batch'' then Some (AddToBatchSchema, False)
      else if name = ''chitchats_remove_from_batch'' then Some (RemoveFromBatchSchema, False)
      else if name = ''chitchats_count_batches'' then Some (CountBatchesSchema, True)
      else if name = ''chitchats_list_returns'' then Some (ListReturnsSchema, True)
      else if name = ''chitchats_track_shipment'' then Some (TrackShipmentSchema, False)
      else None)"

definition toolArgs :: "bool \<Rightarrow> jsv \<Rightarrow> jsv" where
  "toolArgs orEmpty args = (if orEmpty then orElse args (JObj []) else args)"

section \<open>Violations of a schema\<close>

text \<open>A value violates a field's schema when the field is required and the value is
  missing, when the field is numeric and the number is outside a declared bound, or when
  the field is enumerated and the string is not one of the declared values.\<close>

fun isRequired :: "zschema \<Rightarrow> bool" where
  "isRequired (ZOptional t) = False"
| "isRequired t = True"

fun unwrap :: "zschema \<Rightarrow> zschema" where
  "unwrap (ZOptional t) = unwrap t"
| "unwrap t = t"

definition belowMin :: "int option \<Rightarrow> int \<Rightarrow> bool" where
  "belowMin lo n = (case lo of None \<Rightarrow> False | Some m \<Rightarrow> n < m)"

definition aboveMax :: "int option \<Rightarrow> int \<Rightarrow> bool" where
  "aboveMax hi n = (case hi of None \<Rightarrow> False | Some m \<Rightarrow> m < n)"

definition violates :: "zschema \<Rightarrow> jsv \<Rightarrow> bool" where
  "violates t v =
     (if v = JUndefined then isRequired t
      else (case (unwrap t, v) of
              (ZNumber lo hi, JNum n) \<Rightarrow> belowMin lo n \<or> aboveMax hi n
            | (ZEnum vals, JStr s) \<Rightarrow> s \<notin> set vals
            | _ \<Rightarrow> False))"

definition requiredField :: "(string \<times> zschema) list \<Rightarrow> string \<Rightarrow> bool" where
  "requiredField shape k = (case map_of shape k of None \<Rightarrow> False | Some t \<Rightarrow> isRequired t)"

definition isObject :: "jsv \<Rightarrow> bool" where
  "isObject v = (case v of JObj kvs \<Rightarrow> True | _ \<Rightarrow> False)"

section \<open>Test doubles\<close>

text \<open>A remote host that answers every request with the same result and has no state,
  two process environments, and the world before any request.\<close>

definition stubCtx :: "environment \<Rightarrow> fetchResult \<Rightarrow> unit ctx" where
  "stubCtx env res =
     \<lparr> processEnv = env,
       remoteApi = (\<lambda>s rq. (res, s)),
       zodMessage = (\<lambda>issues. ''validation failed''),
       numericPositive = (\<lambda>s. False) \<rparr>"

definition testEnv :: environment where
  "testEnv = \<lparr> CHITCHATS_CLIENT_ID = Some ''42'', CHITCHATS_ACCESS_TOKEN = Some ''secret'',
               CHITCHATS_BASE_URL = None \<rparr>"

definition noCredentials :: environment where
  "noCredentials = \<lparr> CHITCHATS_CLIENT_ID = None, CHITCHATS_ACCESS_TOKEN = None,
                     CHITCHATS_BASE_URL = None \<rparr>"

text \<open>A remote host that counts the requests it has answered and answers each with the
  same response.\<close>

definition countingCtx :: "httpResponse \<Rightarrow> nat ctx" where
  "countingCtx response =
     \<lparr> processEnv = testEnv,
       remoteApi = (\<lambda>n rq. (Responded response, Suc n)),
       zodMessage = (\<lambda>issues. ''validation failed''),
       numericPositive = (\<lambda>s. False) \<rparr>"

definition emptyWorld :: "unit world" where
  "emptyWorld = \<lparr> sent = [], remoteState = () \<rparr>"

text \<open>Arguments for \<open>chitchats_create_shipment\<close>: the six required fields, then an
  empty \<open>address_2\<close>, a weight and a field the schema does not declare; and what
  validation makes of them.\<close>

definition exampleShipment :: "(string \<times> jsv) list" where
  "exampleShipment =
     [(''name'', JStr ''Ada''), (''address_1'', JStr ''1 Main St''), (''city'', JStr ''Toronto''),
      (''province_code'', JStr ''ON''), (''postal_code'', JStr ''M5V 1A1''),
      (''country_code'', JStr ''CA'')]"

definition exampleArgs :: jsv where
  "exampleArgs = JObj (exampleShipment
                        @ [(''address_2'', JStr []), (''weight'', JNum 12), (''gift'', JBool True)])"

definition exampleParams :: "(string \<times> jsv) list" where
  "exampleParams =
     [(''name'', JStr ''Ada''), (''address_1'', JStr ''1 Main St''), (''address_2'', JStr []),
      (''city'', JStr ''Toronto''), (''province_code'', JStr ''ON''),
      (''postal_code'', JStr ''M5V 1A1''), (''country_code'', JStr ''CA''),
      (''weight'', JNum 12)]"

section \<open>The transport client\<close>

lemma request_responded:
  assumes "fetch c (requestOptions c meth endpoint body) w = (Responded response, w')"
  shows "request c meth endpoint body w =
     ((if statusCode response = 429 then
             \<lparr> data = JUndefined,
               error = JStr (''Rate limited. Retry after '' @
                 (case retryAfterHeader response of
                    None \<Rightarrow> ''unknown''
                  | Some retryAfter \<Rightarrow> if retryAfter \<noteq> [] then retryAfter else ''unknown'')
                 @ '' seconds.''),
               status = 429 \<rparr>
           else if statusCode response = 204 then
             \<lparr> data = JUndefined, error = JUndefined, status = 204 \<rparr>
           else
             (case jsonBody response of
                Inl err \<Rightarrow> caughtResponse c err
              | Inr d \<Rightarrow>
                  if \<not> ok response then
                    (case getProp d ''error'' of
                       Inl err \<Rightarrow> caughtResponse c err
                     | Inr e \<Rightarrow>
                         \<lparr> data = JUndefined,
                           error = orElse e (orElse (propOf d ''message'')
                                     (JStr (''HTTP '' @ numStr (int (statusCode response))))),
                           status = statusCode response \<rparr>)
                  else \<lparr> data = d, error = JUndefined, status = statusCode response \<rparr>)), w')"
  using assms by (simp add: request_def)

lemma fetch_stub:
  "fetch (stubCtx env res) rq w = (res, \<lparr> sent = sent w @ [rq], remoteState = remoteState w \<rparr>)"
  by (simp add: fetch_def stubCtx_def)

text \<open>
  Claim C2, as the code has it. A response with status 429 yields a result with status
  429, no data, and the retry hint inside the error text: the \<open>Retry-After\<close> header's
  text when the header is present and not empty, the word \<open>unknown\<close> otherwise. The
  hint is never a number and never a field of its own.
\<close>

theorem rate_limited_result:
  assumes "fetch c (requestOptions c meth endpoint body) w = (Responded response, w')"
      and "statusCode response = 429"
  shows "request c meth endpoint body w =
     (\<lparr> data = JUndefined,
        error = JStr (''Rate limited. Retry after ''
                 @ (case retryAfterHeader response of
                      None \<Rightarrow> ''unknown''
                    | Some h \<Rightarrow> if h = [] then ''unknown'' else h)
                 @ '' seconds.''),
        status = 429 \<rparr>, w')"
  using assms by (simp add: request_responded split: option.splits)

text \<open>
  Claim C2 as stated fails: for \<open>Retry-After: 30\<close> the result has the three fields
  below and none holds the number 30; a header in the date form is copied into the text
  as it is; and an empty header gives the same result as a missing one.
\<close>

theorem rate_limited_counterexample:
  "fst (request (stubCtx testEnv (Responded \<lparr> statusCode = 429, retryAfterHeader = Some ''30'',
                                               jsonBody = Inr JNull \<rparr>))
          ''GET'' ''/shipments'' None emptyWorld)
     = \<lparr> data = JUndefined, error = JStr ''Rate limited. Retry after 30 seconds.'', status = 429 \<rparr>
   \<and> fst (request (stubCtx testEnv (Responded \<lparr> statusCode = 429,
                 retryAfterHeader = Some ''Wed, 21 Oct 2015 07:28:00 GMT'', jsonBody = Inr JNull \<rparr>))
          ''GET'' ''/shipments'' None emptyWorld)
     = \<lparr> data = JUndefined,
         error = JStr ''Rate limited. Retry after Wed, 21 Oct 2015 07:28:00 GMT seconds.'',
         status = 429 \<rparr>
   \<and> fst (request (stubCtx testEnv (Responded \<lparr> statusCode = 429, retryAfterHeader = Some [],
                                               jsonBody = Inr JNull \<rparr>))
          ''GET'' ''/shipments'' None emptyWorld)
     = fst (request (stubCtx testEnv (Responded \<lparr> statusCode = 429, retryAfterHeader = None,
                                               jsonBody = Inr JNull \<rparr>))
          ''GET'' ''/shipments'' None emptyWorld)"
  by (simp add: request_def fetch_stub)

theorem rate_limited_result_witness:
  "request (stubCtx testEnv (Responded \<lparr> statusCode = 429, retryAfterHeader = Some ''30'',
                                               jsonBody = Inr JNull \<rparr>))
          ''GET'' ''/shipments'' None emptyWorld
   = (\<lparr> data = JUndefined, error = JStr ''Rate limited. Retry after 30 seconds.'', status = 429 \<rparr>,
      \<lparr> sent = [\<lparr> url = ''https://chitchats.com/api/v1/clients/42/shipments'', httpMethod = ''GET'',
                  headers = [(''Authorization'', ''secret''), (''Accept'', ''application/json'')],
                  payload = None \<rparr>], remoteState = () \<rparr>)"
proof -
  let ?r = "\<lparr> statusCode = 429, retryAfterHeader = Some ''30'', jsonBody = Inr JNull \<rparr>"
  let ?c = "stubCtx testEnv (Responded ?r)"
  have f: "fetch ?c (requestOptions ?c ''GET'' ''/shipments'' None) emptyWorld
             = (Responded ?r, \<lparr> sent = [requestOptions ?c ''GET'' ''/shipments'' None], remoteState = () \<rparr>)"
    by (simp add: fetch_stub emptyWorld_def)
  have s: "statusCode ?r = 429" by simp
  have o: "requestOptions ?c ''GET'' ''/shipments'' None =
            \<lparr> url = ''https://chitchats.com/api/v1/clients/42/shipments'', httpMethod = ''GET'',
                  headers = [(''Authorization'', ''secret''), (''Accept'', ''application/json'')],
                  payload = None \<rparr>"
    by (simp add: requestOptions_def stubCtx_def testEnv_def newClient_def BASE_URL_def
        CLIENT_ID_def ACCESS_TOKEN_def bodyGiven_def)
  show ?thesis
    using rate_limited_result [OF f s] by (simp add: o)
qed


text \<open>
  Claim C8, as the code has it. For a status that is not 2xx, 429 or 204 and a body that
  parses to a value other than \<open>null\<close>, the result carries the status and, as its
  error, the body's \<open>error\<close> field when truthy, else its \<open>message\<close> field when
  truthy, else \<open>HTTP <status>\<close>.
\<close>

theorem domain_error_result:
  assumes "fetch c (requestOptions c meth endpoint body) w = (Responded response, w')"
      and "\<not> ok response" and "statusCode response \<noteq> 429" and "statusCode response \<noteq> 204"
      and "jsonBody response = Inr d" and "\<not> nullish d"
  shows "request c meth endpoint body w =
     (\<lparr> data = JUndefined,
        error = (if truthy (propOf d ''error'') then propOf d ''error''
                 else if truthy (propOf d ''message'') then propOf d ''message''
                 else JStr (''HTTP '' @ numStr (int (statusCode response)))),
        status = statusCode response \<rparr>, w')"
  using assms
  by (cases d) (simp_all add: request_responded getProp_def propOf_def orElse_def nullish_def)

theorem domain_error_result_witness:
  "request (stubCtx testEnv (Responded \<lparr> statusCode = 404, retryAfterHeader = None,
               jsonBody = Inr (JObj [(''error'', JStr ''not found'')]) \<rparr>))
          ''GET'' ''/shipments/ABC'' None emptyWorld
   = (\<lparr> data = JUndefined, error = JStr ''not found'', status = 404 \<rparr>,
      \<lparr> sent = [\<lparr> url = ''https://chitchats.com/api/v1/clients/42/shipments/ABC'', httpMethod = ''GET'',
                  headers = [(''Authorization'', ''secret''), (''Accept'', ''application/json'')],
                  payload = None \<rparr>], remoteState = () \<rparr>)"
proof -
  let ?d = "JObj [(''error'', JStr ''not found'')]"
  let ?r = "\<lparr> statusCode = 404, retryAfterHeader = None, jsonBody = Inr ?d \<rparr>"
  let ?c = "stubCtx testEnv (Responded ?r)"
  have f: "fetch ?c (requestOptions ?c ''GET'' ''/shipments/ABC'' None) emptyWorld
             = (Responded ?r, \<lparr> sent = [requestOptions ?c ''GET'' ''/shipments/ABC'' None], remoteState = () \<rparr>)"
    by (simp add: fetch_stub emptyWorld_def)
  have o: "requestOptions ?c ''GET'' ''/shipments/ABC'' None =
            \<lparr> url = ''https://chitchats.com/api/v1/clients/42/shipments/ABC'', httpMethod = ''GET'',
                  headers = [(''Authorization'', ''secret''), (''Accept'', ''application/json'')],
                  payload = None \<rparr>"
    by (simp add: requestOptions_def stubCtx_def testEnv_def newClient_def BASE_URL_def
        CLIENT_ID_def ACCESS_TOKEN_def bodyGiven_def)
  have h: "\<not> ok ?r" "statusCode ?r \<noteq> 429" "statusCode ?r \<noteq> 204" "jsonBody ?r = Inr ?d" "\<not> nullish ?d"
    by (simp_all add: ok_def nullish_def)
  show ?thesis
    using domain_error_result [OF f h] by (simp add: o propOf_def getProp_def)
qed

text \<open>
  Claim C8 as stated fails: an \<open>error\<close> field that is present but empty is passed
  over for the \<open>message\<close> field; a body that is not JSON, or is \<open>null\<close>, yields
  status 500 and the fault's message instead of the response's status.
\<close>

theorem domain_error_counterexample:
  "fst (request (stubCtx testEnv (Responded \<lparr> statusCode = 400, retryAfterHeader = None,
               jsonBody = Inr (JObj [(''error'', JStr []), (''message'', JStr ''bad request'')]) \<rparr>))
          ''GET'' ''/shipments'' None emptyWorld)
     = \<lparr> data = JUndefined, error = JStr ''bad request'', status = 400 \<rparr>
   \<and> fst (request (stubCtx testEnv (Responded \<lparr> statusCode = 502, retryAfterHeader = None,
               jsonBody = Inl (OtherError ''Unexpected token < in JSON at position 0'') \<rparr>))
          ''GET'' ''/shipments'' None emptyWorld)
     = \<lparr> data = JUndefined, error = JStr ''Unexpected token < in JSON at position 0'', status = 500 \<rparr>
   \<and> fst (request (stubCtx testEnv (Responded \<lparr> statusCode = 404, retryAfterHeader = None,
               jsonBody = Inr JNull \<rparr>))
          ''GET'' ''/shipments'' None emptyWorld)
     = \<lparr> data = JUndefined,
         error = JStr (''Cannot read properties of null (reading '' @ [CHR 0x27] @ ''error'' @ [CHR 0x27] @ '')''),
         status = 500 \<rparr>"
  by (simp add: request_def fetch_stub ok_def getProp_def propOf_def orElse_def
      caughtResponse_def errMessage_def)

lemma request_result:
  "request c meth endpoint body w =
     ((case fst (remoteApi c (remoteState w) (requestOptions c meth endpoint body)) of
         Rejected err \<Rightarrow> caughtResponse c err
       | Responded response \<Rightarrow>
           (if statusCode response = 429 then
              \<lparr> data = JUndefined,
                error = JStr (''Rate limited. Retry after '' @
                  (case retryAfterHeader response of
                     None \<Rightarrow> ''unknown''
                   | Some retryAfter \<Rightarrow> if retryAfter \<noteq> [] then retryAfter else ''unknown'')
                  @ '' seconds.''),
                status = 429 \<rparr>
            else if statusCode response = 204 then
              \<lparr> data = JUndefined, error = JUndefined, status = 204 \<rparr>
            else
              (case jsonBody response of
                 Inl err \<Rightarrow> caughtResponse c err
               | Inr d \<Rightarrow>
                   if \<not> ok response then
                     (case getProp d ''error'' of
                        Inl err \<Rightarrow> caughtResponse c err
                      | Inr e \<Rightarrow>
                          \<lparr> data = JUndefined,
                            error = orElse e (orElse (propOf d ''message'')
                                      (JStr (''HTTP '' @ numStr (int (statusCode response))))),
                            status = statusCode response \<rparr>)
                   else \<lparr> data = d, error = JUndefined, status = statusCode response \<rparr>))),
      \<lparr> sent = sent w @ [requestOptions c meth endpoint body],
        remoteState = snd (remoteApi c (remoteState w) (requestOptions c meth endpoint body)) \<rparr>)"
proof -
  obtain res s' where r: "remoteApi c (remoteState w) (requestOptions c meth endpoint body) = (res, s')"
    by force
  then have f: "fetch c (requestOptions c meth endpoint body) w
                  = (res, \<lparr> sent = sent w @ [requestOptions c meth endpoint body], remoteState = s' \<rparr>)"
    by (simp add: fetch_def)
  show ?thesis
    by (cases res) (simp_all add: request_def f r)
qed

text \<open>
  Claim C3, as the code has it. When the client identifier or the access token is
  missing, module initialisation logs one line, and every authenticated call still sends
  its request and returns the remote's answer normalised as for any other call: the URL
  has \<open>undefined\<close> for a missing identifier and the \<open>Authorization\<close> header is
  empty for a missing token.
\<close>

theorem missing_credentials_still_send:
  assumes "falsyEnv (CLIENT_ID (processEnv c)) \<or> falsyEnv (ACCESS_TOKEN (processEnv c))"
  shows "moduleInit (processEnv c)
           = [''Missing CHITCHATS_CLIENT_ID or CHITCHATS_ACCESS_TOKEN in environment'']
       \<and> request c meth endpoint body w =
           ((case fst (remoteApi c (remoteState w) (requestOptions c meth endpoint body)) of
               Rejected err \<Rightarrow> caughtResponse c err
             | Responded response \<Rightarrow>
                 (if statusCode response = 429 then
                    \<lparr> data = JUndefined,
                      error = JStr (''Rate limited. Retry after '' @
                        (case retryAfterHeader response of
                           None \<Rightarrow> ''unknown''
                         | Some retryAfter \<Rightarrow> if retryAfter \<noteq> [] then retryAfter else ''unknown'')
                        @ '' seconds.''),
                      status = 429 \<rparr>
                  else if statusCode response = 204 then
                    \<lparr> data = JUndefined, error = JUndefined, status = 204 \<rparr>
                  else
                    (case jsonBody response of
                       Inl err \<Rightarrow> caughtResponse c err
                     | Inr d \<Rightarrow>
                         if \<not> ok response then
                           (case getProp d ''error'' of
                              Inl err \<Rightarrow> caughtResponse c err
                            | Inr e \<Rightarrow>
                                \<lparr> data = JUndefined,
                                  error = orElse e (orElse (propOf d ''message'')
                                            (JStr (''HTTP '' @ numStr (int (statusCode response))))),
                                  status = statusCode response \<rparr>)
                         else \<lparr> data = d, error = JUndefined, status = statusCode response \<rparr>))),
            \<lparr> sent = sent w @ [requestOptions c meth endpoint body],
              remoteState = snd (remoteApi c (remoteState w) (requestOptions c meth endpoint body)) \<rparr>)
       \<and> sent (snd (request c meth endpoint body w))
           = sent w @ [requestOptions c meth endpoint body]
       \<and> url (requestOptions c meth endpoint body)
           = BASE_URL (processEnv c) @ ''/api/v1/clients/''
             @ (case CLIENT_ID (processEnv c) of None \<Rightarrow> ''undefined'' | Some i \<Rightarrow> i) @ endpoint
       \<and> map_of (headers (requestOptions c meth endpoint body)) ''Authorization''
           = Some (case ACCESS_TOKEN (processEnv c) of None \<Rightarrow> [] | Some t \<Rightarrow> t)"
proof (intro conjI)
  show "moduleInit (processEnv c)
           = [''Missing CHITCHATS_CLIENT_ID or CHITCHATS_ACCESS_TOKEN in environment'']"
    using assms by (simp add: moduleInit_def)
  show "sent (snd (request c meth endpoint body w))
           = sent w @ [requestOptions c meth endpoint body]"
    by (simp add: request_result)
  show "url (requestOptions c meth endpoint body)
           = BASE_URL (processEnv c) @ ''/api/v1/clients/''
             @ (case CLIENT_ID (processEnv c) of None \<Rightarrow> ''undefined'' | Some i \<Rightarrow> i) @ endpoint"
    by (simp add: requestOptions_def newClient_def)
  show "map_of (headers (requestOptions c meth endpoint body)) ''Authorization''
           = Some (case ACCESS_TOKEN (processEnv c) of None \<Rightarrow> [] | Some t \<Rightarrow> t)"
    by (simp add: requestOptions_def newClient_def split: option.splits)
qed (rule request_result)

text \<open>
  Claim C3 as stated fails: with neither variable set, a call sends one request and
  returns the remote's answer as a success.
\<close>

theorem missing_credentials_counterexample:
  "request (stubCtx noCredentials (Responded \<lparr> statusCode = 200, retryAfterHeader = None,
               jsonBody = Inr (JArr []) \<rparr>))
          ''GET'' ''/shipments'' None emptyWorld
   = (\<lparr> data = JArr [], error = JUndefined, status = 200 \<rparr>,
      \<lparr> sent = [\<lparr> url = ''https://chitchats.com/api/v1/clients/undefined/shipments'', httpMethod = ''GET'',
                  headers = [(''Authorization'', []), (''Accept'', ''application/json'')],
                  payload = None \<rparr>], remoteState = () \<rparr>)"
proof -
  let ?c = "stubCtx noCredentials (Responded \<lparr> statusCode = 200, retryAfterHeader = None,
               jsonBody = Inr (JArr []) \<rparr>)"
  have o: "requestOptions ?c ''GET'' ''/shipments'' None =
            \<lparr> url = ''https://chitchats.com/api/v1/clients/undefined/shipments'', httpMethod = ''GET'',
                  headers = [(''Authorization'', []), (''Accept'', ''application/json'')],
                  payload = None \<rparr>"
    by (simp add: requestOptions_def stubCtx_def noCredentials_def newClient_def BASE_URL_def
        CLIENT_ID_def ACCESS_TOKEN_def bodyGiven_def)
  show ?thesis
    by (simp add: request_def o fetch_stub ok_def emptyWorld_def)
qed

theorem missing_credentials_still_send_witness:
  "(falsyEnv (CLIENT_ID noCredentials) \<or> falsyEnv (ACCESS_TOKEN noCredentials))
   \<and> moduleInit noCredentials
           = [''Missing CHITCHATS_CLIENT_ID or CHITCHATS_ACCESS_TOKEN in environment'']
   \<and> request (stubCtx noCredentials (Responded \<lparr> statusCode = 401, retryAfterHeader = None,
                 jsonBody = Inr (JObj [(''message'', JStr ''Unauthorized'')]) \<rparr>))
        ''GET'' ''/shipments'' None emptyWorld
       = (\<lparr> data = JUndefined, error = JStr ''Unauthorized'', status = 401 \<rparr>,
          \<lparr> sent = [\<lparr> url = ''https://chitchats.com/api/v1/clients/undefined/shipments'',
                      httpMethod = ''GET'',
                      headers = [(''Authorization'', []), (''Accept'', ''application/json'')],
                      payload = None \<rparr>],
            remoteState = () \<rparr>)"
proof -
  let ?c = "stubCtx noCredentials (Responded \<lparr> statusCode = 401, retryAfterHeader = None,
                 jsonBody = Inr (JObj [(''message'', JStr ''Unauthorized'')]) \<rparr>)"
  have h: "falsyEnv (CLIENT_ID (processEnv ?c)) \<or> falsyEnv (ACCESS_TOKEN (processEnv ?c))"
    by (simp add: stubCtx_def noCredentials_def falsyEnv_def CLIENT_ID_def)
  have o: "requestOptions ?c ''GET'' ''/shipments'' None =
            \<lparr> url = ''https://chitchats.com/api/v1/clients/undefined/shipments'', httpMethod = ''GET'',
                  headers = [(''Authorization'', []), (''Accept'', ''application/json'')],
                  payload = None \<rparr>"
    by (simp add: requestOptions_def stubCtx_def noCredentials_def newClient_def BASE_URL_def
        CLIENT_ID_def ACCESS_TOKEN_def bodyGiven_def)
  have p: "processEnv ?c = noCredentials" and a: "\<And>s rq. remoteApi ?c s rq
      = (Responded \<lparr> statusCode = 401, retryAfterHeader = None,
                 jsonBody = Inr (JObj [(''message'', JStr ''Unauthorized'')]) \<rparr>, s)"
    by (simp_all add: stubCtx_def)
  note T = missing_credentials_still_send [OF h, of "''GET''" "''/shipments''" None emptyWorld]
  from T [THEN conjunct1] have m: "moduleInit noCredentials
           = [''Missing CHITCHATS_CLIENT_ID or CHITCHATS_ACCESS_TOKEN in environment'']"
    by (simp only: p)
  from T [THEN conjunct2, THEN conjunct1]
  have r: "request ?c ''GET'' ''/shipments'' None emptyWorld
       = (\<lparr> data = JUndefined, error = JStr ''Unauthorized'', status = 401 \<rparr>,
          \<lparr> sent = [\<lparr> url = ''https://chitchats.com/api/v1/clients/undefined/shipments'',
                      httpMethod = ''GET'',
                      headers = [(''Authorization'', []), (''Accept'', ''application/json'')],
                      payload = None \<rparr>],
            remoteState = () \<rparr>)"
    by (simp add: o a ok_def getProp_def propOf_def orElse_def emptyWorld_def)
  from h m r show ?thesis by (simp only: p simp_thms)
qed

text \<open>
  Claim C4. The public tracking path does not normalise: a 404 with an error body comes
  back as data with no error (the authenticated path reports \<open>not found\<close>), so the
  tool prints a tracking page with status \<open>Unknown\<close>; a 429 comes back as data; a 204
  (no body) comes back as a status-500 parse failure.
\<close>

theorem public_tracking_not_normalised:
  "fst (getPublicTracking (stubCtx testEnv (Responded \<lparr> statusCode = 404, retryAfterHeader = None,
               jsonBody = Inr (JObj [(''error'', JStr ''not found'')]) \<rparr>)) (JStr ''ABC'') emptyWorld)
     = \<lparr> data = JObj [(''error'', JStr ''not found'')], error = JUndefined, status = 404 \<rparr>
   \<and> fst (get (stubCtx testEnv (Responded \<lparr> statusCode = 404, retryAfterHeader = None,
               jsonBody = Inr (JObj [(''error'', JStr ''not found'')]) \<rparr>)) ''/shipments/ABC'' emptyWorld)
     = \<lparr> data = JUndefined, error = JStr ''not found'', status = 404 \<rparr>
   \<and> fst (trackShipment (stubCtx testEnv (Responded \<lparr> statusCode = 404, retryAfterHeader = None,
               jsonBody = Inr (JObj [(''error'', JStr ''not found'')]) \<rparr>))
           (JObj [(''id'', JStr ''ABC'')]) emptyWorld)
     = Inr (''## Tracking for Shipment ABC'' @ nl @ nl @ ''**Status:** Unknown'')
   \<and> fst (getPublicTracking (stubCtx testEnv (Responded \<lparr> statusCode = 429, retryAfterHeader = Some ''30'',
               jsonBody = Inr (JObj [(''message'', JStr ''slow down'')]) \<rparr>)) (JStr ''ABC'') emptyWorld)
     = \<lparr> data = JObj [(''message'', JStr ''slow down'')], error = JUndefined, status = 429 \<rparr>
   \<and> fst (getPublicTracking (stubCtx testEnv (Responded \<lparr> statusCode = 204, retryAfterHeader = None,
               jsonBody = Inl (OtherError ''Unexpected end of JSON input'') \<rparr>)) (JStr ''ABC'') emptyWorld)
     = \<lparr> data = JUndefined, error = JStr ''Unexpected end of JSON input'', status = 500 \<rparr>"
  by (simp add: getPublicTracking_def get_def request_def fetch_stub ok_def getProp_def propOf_def
      orElse_def caughtResponse_def errMessage_def trackShipment_def trackShipmentText_def
      forOfSection_def bindE_def tpl_def tplOr_def labelled_def has_def onlyIf_def)

section \<open>The call handler: unknown tools\<close>

lemma switchName_unknown:
  "name \<notin> set (map toolName tools) \<Longrightarrow> switchName c name args w = None"
  by (simp add: switchName_def tools_def)

lemma switchName_None_iff:
  "switchName c name args w = None \<longleftrightarrow> name \<notin> set (map toolName tools)"
  by (simp add: switchName_def tools_def)

text \<open>
  Claim C7. For every name that is not the name of a tool, the call handler returns the
  text \<open>Unknown tool: <name>\<close> with \<open>isError: true\<close>, and the world is untouched: no
  argument is parsed and no request is sent.
\<close>

theorem unknown_tool:
  "name \<notin> set (map toolName tools) \<Longrightarrow>
   callTool c name args w =
     (\<lparr> contentText = ''Unknown tool: '' @ name, isError = Some True \<rparr>, w)"
  by (simp add: callTool_def switchName_unknown)

theorem unknown_tool_witness:
  "''chitchats_fly'' \<notin> set (map toolName tools) \<and>
   callTool \<lparr> processEnv = \<lparr> CHITCHATS_CLIENT_ID = Some ''7'',
                              CHITCHATS_ACCESS_TOKEN = Some ''t'',
                              CHITCHATS_BASE_URL = None \<rparr>,
              remoteApi = (\<lambda>s rq. (Rejected NonError, s)),
              zodMessage = (\<lambda>issues. ''invalid''),
              numericPositive = (\<lambda>s. False) \<rparr>
     ''chitchats_fly'' (JObj [(''id'', JStr ''A1'')]) \<lparr> sent = [], remoteState = () \<rparr>
   = (\<lparr> contentText = ''Unknown tool: chitchats_fly'', isError = Some True \<rparr>,
      \<lparr> sent = [], remoteState = () \<rparr>)"
proof -
  have h: "''chitchats_fly'' \<notin> set (map toolName tools)"
    by (simp add: tools_def)
  show ?thesis
    using h unknown_tool [OF h] by simp
qed

section \<open>Validation failures\<close>

lemma toolSchema_None_iff:
  "toolSchema name = None \<longleftrightarrow> name \<notin> set (map toolName tools)"
  by (simp add: toolSchema_def tools_def)

lemma registered_cases:
  assumes "name \<in> set (map toolName tools)"
  shows "name = ''chitchats_list_shipments'' \<or> name = ''chitchats_get_shipment''
      \<or> name = ''chitchats_get_rates'' \<or> name = ''chitchats_get_labels''
      \<or> name = ''chitchats_get_line_items'' \<or> name = ''chitchats_create_shipment''
      \<or> name = ''chitchats_delete_shipment'' \<or> name = ''chitchats_buy_postage''
      \<or> name = ''chitchats_refund_shipment'' \<or> name = ''chitchats_refresh_rates''
      \<or> name = ''chitchats_count_shipments'' \<or> name = ''chitchats_list_batches''
      \<or> name = ''chitchats_create_batch'' \<or> name = ''chitchats_get_batch''
      \<or> name = ''chitchats_delete_batch'' \<or> name = ''chitchats_add_to_batch''
      \<or> name = ''chitchats_remove_from_batch'' \<or> name = ''chitchats_count_batches''
      \<or> name = ''chitchats_list_returns'' \<or> name = ''chitchats_track_shipment''"
  using assms by (simp add: tools_def)

lemma switchName_invalid:
  assumes "toolSchema name = Some (shape, orEmpty)"
      and "parse shape (toolArgs orEmpty args) = Inl err"
  shows "switchName c name args w = Some (Inl err, w)"
proof -
  have "name \<in> set (map toolName tools)"
    using assms(1) toolSchema_None_iff [of name] by auto
  from registered_cases [OF this] show ?thesis
    using assms
    by (elim disjE) (simp_all add: toolSchema_def switchName_def invoke_def toolArgs_def)
qed

lemma checkValue_unwrap:
  "v \<noteq> JUndefined \<Longrightarrow> checkValue t p v = checkValue (unwrap t) p v"
  by (induction t) simp_all

lemma violates_defined:
  "v \<noteq> JUndefined \<Longrightarrow> violates t v \<Longrightarrow>
     (\<exists>lo hi n. unwrap t = ZNumber lo hi \<and> v = JNum n \<and> (belowMin lo n \<or> aboveMax hi n))
   \<or> (\<exists>vals s. unwrap t = ZEnum vals \<and> v = JStr s \<and> s \<notin> set vals)"
  unfolding violates_def
  by (cases "unwrap t"; cases v) simp_all

lemma missing_required_issue:
  "isRequired t \<Longrightarrow> \<exists>i \<in> set (checkValue t p JUndefined). path i = p"
  by (cases t) simp_all

lemma out_of_bounds_issue:
  "belowMin lo n \<or> aboveMax hi n \<Longrightarrow> \<exists>i \<in> set (checkValue (ZNumber lo hi) p (JNum n)). path i = p"
  by (cases lo; cases hi) (auto simp: belowMin_def aboveMax_def)

lemma not_in_enum_issue:
  "s \<notin> set vals \<Longrightarrow> \<exists>i \<in> set (checkValue (ZEnum vals) p (JStr s)). path i = p"
  by simp

lemma violates_issue:
  assumes "violates t v"
  shows "\<exists>i \<in> set (checkValue t p v). path i = p"
proof (cases "v = JUndefined")
  case True
  with assms have "isRequired t" by (simp add: violates_def)
  from missing_required_issue [OF this] True show ?thesis by simp
next
  case False
  from violates_defined [OF False assms]
  have "\<exists>i \<in> set (checkValue (unwrap t) p v). path i = p"
    using out_of_bounds_issue not_in_enum_issue by metis
  with checkValue_unwrap [OF False, of t p] show ?thesis by simp
qed

lemma parse_violation:
  assumes "(k, t) \<in> set shape" and "violates t (propOf input k)"
  shows "\<exists>issues. issues \<noteq> [] \<and> parse shape input = Inl (ZodError issues)
           \<and> (isObject input \<longrightarrow> (\<exists>i \<in> set issues. path i = [Key k]))"
proof (cases input)
  case (JObj kvs)
  let ?issues = "concat (map (\<lambda>(k, t). checkValue t [Key k] (propOf input k)) shape)"
  from violates_issue [OF assms(2), of "[Key k]"] obtain i
    where i: "i \<in> set (checkValue t [Key k] (propOf input k))" "path i = [Key k]" by blast
  with assms(1) have m: "i \<in> set ?issues" by force
  then have "?issues \<noteq> []" by (metis empty_iff empty_set)
  with m i JObj show ?thesis
    by (auto simp: parse_def Let_def)
qed (simp_all add: parse_def isObject_def)

text \<open>
  Claim C5. For every tool and every argument structure in which a field of the tool's
  schema is violated (a required field is missing, a number is outside a declared bound,
  a string is outside a declared enumeration), the call handler returns \<open>isError: true\<close>
  with the text \<open>Error: \<close> followed by zod's message for a non-empty list of issues,
  one of them at the offending field when the arguments are an object; the world is
  unchanged, so no request is sent.
\<close>

theorem invalid_arguments_rejected:
  assumes "name \<in> set (map toolName tools)"
      and "toolSchema name = Some (shape, orEmpty)"
      and "(k, t) \<in> set shape"
      and "violates t (propOf (toolArgs orEmpty args) k)"
  shows "\<exists>issues. issues \<noteq> []
           \<and> callTool c name args w
               = (\<lparr> contentText = ''Error: '' @ zodMessage c issues, isError = Some True \<rparr>, w)
           \<and> (isObject (toolArgs orEmpty args) \<longrightarrow> (\<exists>i \<in> set issues. path i = [Key k]))"
proof -
  from parse_violation [OF assms(3,4)] obtain issues
    where p: "issues \<noteq> []" "parse shape (toolArgs orEmpty args) = Inl (ZodError issues)"
      "isObject (toolArgs orEmpty args) \<longrightarrow> (\<exists>i \<in> set issues. path i = [Key k])" by blast
  from switchName_invalid [OF assms(2) p(2), of c w]
  have "callTool c name args w
          = (\<lparr> contentText = ''Error: '' @ zodMessage c issues, isError = Some True \<rparr>, w)"
    by (simp add: callTool_def errMessage_def)
  with p show ?thesis by blast
qed

theorem invalid_arguments_rejected_witness:
  "''chitchats_get_shipment'' \<in> set (map toolName tools)
   \<and> toolSchema ''chitchats_get_shipment'' = Some (GetShipmentSchema, False)
   \<and> (''id'', ZString) \<in> set GetShipmentSchema
   \<and> violates ZString (propOf (toolArgs False (JObj [])) ''id'')
   \<and> callTool (stubCtx testEnv (Rejected NonError)) ''chitchats_get_shipment'' (JObj []) emptyWorld
       = (\<lparr> contentText = ''Error: validation failed'', isError = Some True \<rparr>, emptyWorld)
   \<and> ''chitchats_list_shipments'' \<in> set (map toolName tools)
   \<and> toolSchema ''chitchats_list_shipments'' = Some (ListShipmentsSchema, True)
   \<and> (''limit'', ZOptional (ZNumber (Some 1) (Some 1000))) \<in> set ListShipmentsSchema
   \<and> violates (ZOptional (ZNumber (Some 1) (Some 1000)))
         (propOf (toolArgs True (JObj [(''limit'', JNum 5000)])) ''limit'')
   \<and> callTool (stubCtx testEnv (Rejected NonError)) ''chitchats_list_shipments''
         (JObj [(''limit'', JNum 5000)]) emptyWorld
       = (\<lparr> contentText = ''Error: validation failed'', isError = Some True \<rparr>, emptyWorld)"
proof -
  let ?c = "stubCtx testEnv (Rejected NonError)"
  have a: "''chitchats_get_shipment'' \<in> set (map toolName tools)"
    and b: "toolSchema ''chitchats_get_shipment'' = Some (GetShipmentSchema, False)"
    and d: "(''id'', ZString) \<in> set GetShipmentSchema"
    and e: "violates ZString (propOf (toolArgs False (JObj [])) ''id'')"
    by (simp_all add: tools_def toolSchema_def GetShipmentSchema_def violates_def toolArgs_def
        propOf_def getProp_def)
  have a': "''chitchats_list_shipments'' \<in> set (map toolName tools)"
    and b': "toolSchema ''chitchats_list_shipments'' = Some (ListShipmentsSchema, True)"
    and d': "(''limit'', ZOptional (ZNumber (Some 1) (Some 1000))) \<in> set ListShipmentsSchema"
    and e': "violates (ZOptional (ZNumber (Some 1) (Some 1000)))
         (propOf (toolArgs True (JObj [(''limit'', JNum 5000)])) ''limit'')"
    by (simp_all add: tools_def toolSchema_def ListShipmentsSchema_def violates_def toolArgs_def
        propOf_def getProp_def orElse_def belowMin_def aboveMax_def)
  have z: "\<And>issues. zodMessage ?c issues = ''validation failed''"
    by (simp add: stubCtx_def)
  from invalid_arguments_rejected [OF a b d e, of ?c emptyWorld]
  have r: "callTool ?c ''chitchats_get_shipment'' (JObj []) emptyWorld
       = (\<lparr> contentText = ''Error: validation failed'', isError = Some True \<rparr>, emptyWorld)"
    by (auto simp: z)
  from invalid_arguments_rejected [OF a' b' d' e', of ?c emptyWorld]
  have r': "callTool ?c ''chitchats_list_shipments'' (JObj [(''limit'', JNum 5000)]) emptyWorld
       = (\<lparr> contentText = ''Error: validation failed'', isError = Some True \<rparr>, emptyWorld)"
    by (auto simp: z)
  from a b d e r a' b' d' e' r' show ?thesis by blast
qed

section \<open>Validated parameters and the request body\<close>

lemma map_of_whitelist:
  "map_of (concat (map (\<lambda>(k, t). case map_of kvs k of None \<Rightarrow> [] | Some v \<Rightarrow> [(k, v)]) shape)) k
     = (if k \<in> fst ` set shape then map_of kvs k else None)"
  by (induction shape) (auto simp: map_add_def split: option.splits)

lemma parse_Inr:
  assumes "parse shape input = Inr params"
  shows "\<exists>kvs. input = JObj kvs
           \<and> params = JObj (concat (map (\<lambda>(k, t). case map_of kvs k of
                                                      None \<Rightarrow> []
                                                    | Some v \<Rightarrow> [(k, v)]) shape))
           \<and> (\<forall>(k, t) \<in> set shape. checkValue t [Key k] (propOf input k) = [])"
  using assms
  by (cases input) (auto simp: parse_def Let_def split: if_splits)

lemma map_of_tabulate:
  "map_of (map (\<lambda>k. (k, f k)) ks) k = (if k \<in> set ks then Some (f k) else None)"
  by (induction ks) auto

lemma map_of_bodyIf:
  "map_of (concat (map (bodyIf params) ks)) k
     = (if k \<in> set ks \<and> has params k then Some (propOf params k) else None)"
  by (induction ks) (auto simp: bodyIf_def onlyIf_def map_add_def split: option.splits)

lemma propOf_JObj:
  "propOf (JObj kvs) k = (case map_of kvs k of None \<Rightarrow> JUndefined | Some v \<Rightarrow> v)"
  by (simp add: propOf_def getProp_def)

lemma checkValue_ZString:
  "checkValue ZString p v = [] \<Longrightarrow> \<exists>s. v = JStr s"
  by (cases v) simp_all

lemma request_sent:
  "sent (snd (request c meth endpoint body w)) = sent w @ [requestOptions c meth endpoint body]"
  by (simp add: request_def fetch_def split: prod.splits fetchResult.splits)

lemma createShipmentBody_shape:
  "createShipmentBody params =
     JObj (map (\<lambda>k. (k, propOf params k))
             [''name'', ''address_1'', ''city'', ''province_code'', ''postal_code'', ''country_code'']
           @ concat (map (bodyIf params)
               [''address_2'', ''phone'', ''email'', ''package_type'', ''size_unit'', ''size_x'',
                ''size_y'', ''size_z'', ''weight_unit'', ''weight'', ''description'', ''value'',
                ''value_currency'', ''order_id'', ''order_store'', ''postage_type'']))"
  by (simp add: createShipmentBody_def)

lemma createShipment_declares_required:
  assumes "k \<in> set [''name'', ''address_1'', ''city'', ''province_code'', ''postal_code'', ''country_code'']"
  shows "k \<in> fst ` set CreateShipmentSchema"
  using assms by (auto simp: CreateShipmentSchema_def)

lemma createShipment_undeclared:
  assumes "k \<notin> set [''name'', ''address_1'', ''city'', ''province_code'', ''postal_code'', ''country_code'']"
      and "k \<notin> set [''address_2'', ''phone'', ''email'', ''package_type'', ''size_unit'', ''size_x'',
                ''size_y'', ''size_z'', ''weight_unit'', ''weight'', ''description'', ''value'',
                ''value_currency'', ''order_id'', ''order_store'', ''postage_type'']"
  shows "k \<notin> fst ` set CreateShipmentSchema"
  using assms by (simp add: CreateShipmentSchema_def)

lemma createShipment_required:
  "requiredField CreateShipmentSchema k
     \<longleftrightarrow> k \<in> set [''name'', ''address_1'', ''city'', ''province_code'', ''postal_code'', ''country_code'']"
  by (simp add: requiredField_def CreateShipmentSchema_def)

lemma createShipment_required_string:
  assumes "k \<in> set [''name'', ''address_1'', ''city'', ''province_code'', ''postal_code'', ''country_code'']"
  shows "(k, ZString) \<in> set CreateShipmentSchema"
  using assms by (auto simp: CreateShipmentSchema_def)

lemma map_of_body:
  "map_of (map (\<lambda>k. (k, f k)) rs @ concat (map (bodyIf params) os)) k =
      (if k \<in> set rs then Some (f k)
       else if k \<in> set os \<and> has params k then Some (propOf params k) else None)"
  by (simp add: map_add_def map_of_tabulate map_of_bodyIf)

lemma createShipment_body_fields:
  assumes "parse CreateShipmentSchema input = Inr params"
  shows "\<exists>pkvs bkvs. params = JObj pkvs \<and> createShipmentBody params = JObj bkvs
           \<and> (\<forall>k. map_of bkvs k =
                 (case map_of pkvs k of
                    None \<Rightarrow> None
                  | Some v \<Rightarrow> if requiredField CreateShipmentSchema k \<or> truthy v then Some v else None))"
proof -
  define req where "req = [''name'', ''address_1'', ''city'', ''province_code'', ''postal_code'', ''country_code'']"
  define opt where "opt = [''address_2'', ''phone'', ''email'', ''package_type'', ''size_unit'', ''size_x'',
                ''size_y'', ''size_z'', ''weight_unit'', ''weight'', ''description'', ''value'',
                ''value_currency'', ''order_id'', ''order_store'', ''postage_type'']"
  from parse_Inr [OF assms] obtain kvs where
    i: "input = JObj kvs"
    and p: "params = JObj (concat (map (\<lambda>(k, t). case map_of kvs k of
                                                      None \<Rightarrow> []
                                                    | Some v \<Rightarrow> [(k, v)]) CreateShipmentSchema))"
    and ok: "\<forall>(k, t) \<in> set CreateShipmentSchema. checkValue t [Key k] (propOf input k) = []"
    by blast
  define pkvs where "pkvs = concat (map (\<lambda>(k, t). case map_of kvs k of
                                                      None \<Rightarrow> []
                                                    | Some v \<Rightarrow> [(k, v)]) CreateShipmentSchema)"
  define bkvs where "bkvs = map (\<lambda>k. (k, propOf params k)) req @ concat (map (bodyIf params) opt)"
  have P: "params = JObj pkvs" using p by (simp only: pkvs_def)
  have B: "createShipmentBody params = JObj bkvs"
    by (simp only: createShipmentBody_shape bkvs_def req_def opt_def)
  have wl: "\<And>k. map_of pkvs k = (if k \<in> fst ` set CreateShipmentSchema then map_of kvs k else None)"
    unfolding pkvs_def by (rule map_of_whitelist)
  have pr: "\<And>k. propOf params k = (case map_of pkvs k of None \<Rightarrow> JUndefined | Some v \<Rightarrow> v)"
    by (simp only: P propOf_JObj)
  have body: "\<And>k. map_of bkvs k =
      (if k \<in> set req then Some (propOf params k)
       else if k \<in> set opt \<and> has params k then Some (propOf params k) else None)"
    unfolding bkvs_def by (rule map_of_body)
  have R: "\<And>k. requiredField CreateShipmentSchema k \<longleftrightarrow> k \<in> set req"
    unfolding req_def by (rule createShipment_required)
  have F: "\<forall>k. map_of bkvs k =
                 (case map_of pkvs k of
                    None \<Rightarrow> None
                  | Some v \<Rightarrow> if requiredField CreateShipmentSchema k \<or> truthy v then Some v else None)"
  proof
    fix k
    show "map_of bkvs k =
                 (case map_of pkvs k of
                    None \<Rightarrow> None
                  | Some v \<Rightarrow> if requiredField CreateShipmentSchema k \<or> truthy v then Some v else None)"
    proof (cases "k \<in> set req")
      case True
      then have "(k, ZString) \<in> set CreateShipmentSchema"
        unfolding req_def by (rule createShipment_required_string)
      with ok have "checkValue ZString [Key k] (propOf input k) = []" by blast
      then obtain s where "propOf input k = JStr s" using checkValue_ZString by blast
      with i have "map_of kvs k = Some (JStr s)"
        by (simp add: propOf_JObj split: option.splits)
      moreover have "k \<in> fst ` set CreateShipmentSchema"
        using True unfolding req_def by (rule createShipment_declares_required)
      ultimately have m: "map_of pkvs k = Some (JStr s)" by (simp add: wl)
      with True show ?thesis by (simp add: body pr R)
    next
      case False
      show ?thesis
      proof (cases "k \<in> set opt")
        case True
        with False show ?thesis
          by (simp add: body pr R has_def split: option.splits)
      next
        case no: False
        with False have "k \<notin> fst ` set CreateShipmentSchema"
          unfolding req_def opt_def by (rule createShipment_undeclared)
        then have "map_of pkvs k = None" by (simp add: wl)
        with False no show ?thesis by (simp add: body)
      qed
    qed
  qed
  from P B F show ?thesis by blast
qed

lemma parse_example:
  "parse CreateShipmentSchema exampleArgs = Inr (JObj exampleParams)"
  by (simp add: parse_def CreateShipmentSchema_def exampleShipment_def exampleArgs_def
      exampleParams_def propOf_def getProp_def)

lemma body_example:
  "createShipmentBody (JObj exampleParams) = JObj (exampleShipment @ [(''weight'', JNum 12)])"
  by (simp add: createShipmentBody_def exampleShipment_def exampleParams_def bodyIf_def has_def
      onlyIf_def propOf_def getProp_def)

lemma snd_formatted:
  "snd (case X of (response, w') \<Rightarrow> (f response, w')) = snd X"
  by (simp split: prod.splits)

text \<open>
  Claim C6, as the code has it. Validation against any schema yields an object that has
  exactly the declared fields the input has, each with the input's value: an absent
  optional field stays absent and an undeclared field is dropped. The body that
  \<open>createShipment\<close> sends holds every required field and every optional field whose
  validated value is truthy, and nothing else; a present optional field that is empty or
  zero is not forwarded.
\<close>

theorem declared_fields_forwarded:
  "(parse shape input = Inr params \<longrightarrow>
      (\<exists>kvs pkvs. input = JObj kvs \<and> params = JObj pkvs
         \<and> (\<forall>k. map_of pkvs k = (if k \<in> fst ` set shape then map_of kvs k else None))))
   \<and> (parse CreateShipmentSchema input = Inr params \<longrightarrow>
      (\<exists>pkvs bkvs. params = JObj pkvs \<and> createShipmentBody params = JObj bkvs
         \<and> (\<forall>k. map_of bkvs k =
               (case map_of pkvs k of
                  None \<Rightarrow> None
                | Some v \<Rightarrow> if requiredField CreateShipmentSchema k \<or> truthy v
                            then Some v else None))))
   \<and> sent (snd (createShipment c params w))
        = sent w @ [requestOptions c ''POST'' ''/shipments'' (Some (createShipmentBody params))]
   \<and> payload (requestOptions c ''POST'' ''/shipments'' (Some (createShipmentBody params)))
        = Some (createShipmentBody params)"
proof (intro conjI impI)
  assume "parse shape input = Inr params"
  from parse_Inr [OF this] obtain kvs where
    i: "input = JObj kvs"
    and p: "params = JObj (concat (map (\<lambda>(k, t). case map_of kvs k of
                                                      None \<Rightarrow> []
                                                    | Some v \<Rightarrow> [(k, v)]) shape))"
    by blast
  show "\<exists>kvs pkvs. input = JObj kvs \<and> params = JObj pkvs
         \<and> (\<forall>k. map_of pkvs k = (if k \<in> fst ` set shape then map_of kvs k else None))"
  proof (intro exI conjI allI)
    show "input = JObj kvs" by (rule i)
    show "params = JObj (concat (map (\<lambda>(k, t). case map_of kvs k of
                                                      None \<Rightarrow> []
                                                    | Some v \<Rightarrow> [(k, v)]) shape))"
      by (rule p)
    fix k
    show "map_of (concat (map (\<lambda>(k, t). case map_of kvs k of
                                               None \<Rightarrow> []
                                             | Some v \<Rightarrow> [(k, v)]) shape)) k
            = (if k \<in> fst ` set shape then map_of kvs k else None)"
      by (rule map_of_whitelist)
  qed
next
  assume "parse CreateShipmentSchema input = Inr params"
  then show "\<exists>pkvs bkvs. params = JObj pkvs \<and> createShipmentBody params = JObj bkvs
         \<and> (\<forall>k. map_of bkvs k =
               (case map_of pkvs k of
                  None \<Rightarrow> None
                | Some v \<Rightarrow> if requiredField CreateShipmentSchema k \<or> truthy v
                            then Some v else None))"
    by (rule createShipment_body_fields)
next
  show "sent (snd (createShipment c params w))
          = sent w @ [requestOptions c ''POST'' ''/shipments'' (Some (createShipmentBody params))]"
    by (simp only: createShipment_def post_def snd_formatted request_sent)
next
  show "payload (requestOptions c ''POST'' ''/shipments'' (Some (createShipmentBody params)))
          = Some (createShipmentBody params)"
    by (simp add: requestOptions_def bodyGiven_def createShipmentBody_def)
qed

theorem declared_fields_forwarded_witness:
  "parse CreateShipmentSchema exampleArgs = Inr (JObj exampleParams)
   \<and> createShipmentBody (JObj exampleParams) = JObj (exampleShipment @ [(''weight'', JNum 12)])
   \<and> map_of (exampleShipment @ [(''weight'', JNum 12)]) ''weight'' = Some (JNum 12)
   \<and> map_of (exampleShipment @ [(''weight'', JNum 12)]) ''address_2'' = None
   \<and> map_of (exampleShipment @ [(''weight'', JNum 12)]) ''gift'' = None
   \<and> map payload (sent (snd (createShipment (stubCtx testEnv (Rejected NonError))
                                (JObj exampleParams) emptyWorld)))
       = [Some (JObj (exampleShipment @ [(''weight'', JNum 12)]))]"
proof -
  let ?c = "stubCtx testEnv (Rejected NonError)"
  note T = declared_fields_forwarded [of CreateShipmentSchema exampleArgs "JObj exampleParams"
             ?c emptyWorld]
  from T [THEN conjunct2, THEN conjunct1, THEN mp, OF parse_example]
  obtain pkvs bkvs where
    P: "JObj exampleParams = JObj pkvs" and B: "createShipmentBody (JObj exampleParams) = JObj bkvs"
    and F: "\<forall>k. map_of bkvs k =
               (case map_of pkvs k of
                  None \<Rightarrow> None
                | Some v \<Rightarrow> if requiredField CreateShipmentSchema k \<or> truthy v
                            then Some v else None)"
    by (elim exE conjE)
  from B have b: "bkvs = exampleShipment @ [(''weight'', JNum 12)]"
    by (simp only: body_example jsv.inject)
  from P have p: "pkvs = exampleParams" by simp
  have r: "\<not> requiredField CreateShipmentSchema ''weight''"
    "\<not> requiredField CreateShipmentSchema ''address_2''"
    by (simp_all add: requiredField_def CreateShipmentSchema_def)
  from F [rule_format, of "''weight''"] have w: "map_of bkvs ''weight'' = Some (JNum 12)"
    by (simp add: p r exampleParams_def)
  from F [rule_format, of "''address_2''"] have a: "map_of bkvs ''address_2'' = None"
    by (simp add: p r exampleParams_def)
  from F [rule_format, of "''gift''"] have g: "map_of bkvs ''gift'' = None"
    by (simp add: p exampleParams_def)
  from T [THEN conjunct2, THEN conjunct2, THEN conjunct1]
       T [THEN conjunct2, THEN conjunct2, THEN conjunct2]
  have s: "map payload (sent (snd (createShipment ?c (JObj exampleParams) emptyWorld)))
       = [Some (JObj (exampleShipment @ [(''weight'', JNum 12)]))]"
    by (simp add: emptyWorld_def body_example)
  from parse_example body_example w a g s show ?thesis
    by (simp only: b simp_thms)
qed

text \<open>
  Claim C6 as stated fails: a weight of 0 passes validation and is part of the validated
  parameters, yet the body sent has the six required fields only.
\<close>

theorem declared_fields_counterexample:
  "parse CreateShipmentSchema (JObj (exampleShipment @ [(''weight'', JNum 0)]))
     = Inr (JObj (exampleShipment @ [(''weight'', JNum 0)]))
   \<and> createShipmentBody (JObj (exampleShipment @ [(''weight'', JNum 0)])) = JObj exampleShipment"
  by (simp add: parse_def CreateShipmentSchema_def exampleShipment_def propOf_def getProp_def
      createShipmentBody_def bodyIf_def has_def onlyIf_def)

section \<open>The error flag\<close>







section \<open>Outputs depend on the remote only through its responses\<close>

lemma fst_formatted:
  "fst (case X of (response, w') \<Rightarrow> (f response, w')) = f (fst X)"
  by (simp split: prod.splits)

lemma fetch_same:
  assumes "\<forall>rq. fst (remoteApi c (remoteState w) rq) = fst (remoteApi c (remoteState v) rq)"
  shows "fst (fetch c rq w) = fst (fetch c rq v)"
proof -
  have "\<And>u. fst (fetch c rq u) = fst (remoteApi c (remoteState u) rq)"
    by (simp add: fetch_def split_beta)
  with assms show ?thesis by simp
qed

lemma request_same:
  assumes "\<forall>rq. fst (remoteApi c (remoteState w) rq) = fst (remoteApi c (remoteState v) rq)"
  shows "fst (request c meth endpoint body w) = fst (request c meth endpoint body v)"
proof -
  let ?rq = "requestOptions c meth endpoint body"
  obtain r w' where a: "fetch c ?rq w = (r, w')" by force
  obtain r' v' where b: "fetch c ?rq v = (r', v')" by force
  from fetch_same [OF assms, of ?rq] a b have "r = r'" by simp
  with a b show ?thesis
    by (cases r') (simp_all add: request_def)
qed

lemma getPublicTracking_same:
  assumes "\<forall>rq. fst (remoteApi c (remoteState w) rq) = fst (remoteApi c (remoteState v) rq)"
  shows "fst (getPublicTracking c shipmentId w) = fst (getPublicTracking c shipmentId v)"
proof -
  let ?rq = "\<lparr> url = BASE_URL (processEnv c) @ ''/tracking/'' @ toStr shipmentId @ ''.json'',
              httpMethod = ''GET'', headers = [], payload = None \<rparr>"
  obtain r w' where a: "fetch c ?rq w = (r, w')" by force
  obtain r' v' where b: "fetch c ?rq v = (r', v')" by force
  from fetch_same [OF assms, of ?rq] a b have "r = r'" by simp
  with a b show ?thesis
    by (cases r') (simp_all add: getPublicTracking_def)
qed

lemma handlers_same:
  assumes "\<forall>rq. fst (remoteApi c (remoteState w) rq) = fst (remoteApi c (remoteState v) rq)"
  shows "fst (listShipments c p w) = fst (listShipments c p v)"
    and "fst (getShipment c p w) = fst (getShipment c p v)"
    and "fst (getShipmentRates c p w) = fst (getShipmentRates c p v)"
    and "fst (getShipmentLabels c p w) = fst (getShipmentLabels c p v)"
    and "fst (getShipmentLineItems c p w) = fst (getShipmentLineItems c p v)"
    and "fst (createShipment c p w) = fst (createShipment c p v)"
    and "fst (deleteShipment c p w) = fst (deleteShipment c p v)"
    and "fst (buyPostage c p w) = fst (buyPostage c p v)"
    and "fst (refundShipment c p w) = fst (refundShipment c p v)"
    and "fst (refreshRates c p w) = fst (refreshRates c p v)"
    and "fst (countShipments c p w) = fst (countShipments c p v)"
    and "fst (listBatches c p w) = fst (listBatches c p v)"
    and "fst (createBatch c p w) = fst (createBatch c p v)"
    and "fst (getBatch c p w) = fst (getBatch c p v)"
    and "fst (deleteBatch c p w) = fst (deleteBatch c p v)"
    and "fst (addToBatch c p w) = fst (addToBatch c p v)"
    and "fst (removeFromBatch c p w) = fst (removeFromBatch c p v)"
    and "fst (countBatches c p w) = fst (countBatches c p v)"
    and "fst (listReturns c p w) = fst (listReturns c p v)"
    and "fst (trackShipment c p w) = fst (trackShipment c p v)"
  by (simp_all add: listShipments_def getShipment_def getShipmentRates_def getShipmentLabels_def
      getShipmentLineItems_def createShipment_def deleteShipment_def buyPostage_def
      refundShipment_def refreshRates_def countShipments_def listBatches_def createBatch_def
      getBatch_def deleteBatch_def addToBatch_def removeFromBatch_def countBatches_def
      listReturns_def trackShipment_def get_def post_def patch_def delete_def fst_formatted
      request_same [OF assms] getPublicTracking_same [OF assms])

lemma invoke_fst:
  "fst (invoke c schema handler args w)
     = (case parse schema args of Inl err \<Rightarrow> Inl err | Inr params \<Rightarrow> fst (handler c params w))"
  by (simp add: invoke_def split: sum.splits)

lemma switchName_same:
  assumes "\<forall>rq. fst (remoteApi c (remoteState w) rq) = fst (remoteApi c (remoteState v) rq)"
  shows "map_option fst (switchName c name args w) = map_option fst (switchName c name args v)"
proof (cases "name \<in> set (map toolName tools)")
  case True
  from registered_cases [OF True] show ?thesis
    by (elim disjE) (simp_all add: switchName_def invoke_fst handlers_same [OF assms] cong: sum.case_cong)
next
  case False
  then show ?thesis by (simp add: switchName_unknown)
qed

lemma callTool_fst:
  "fst (callTool c name args w) =
     (case map_option fst (switchName c name args w) of
        None \<Rightarrow> \<lparr> contentText = ''Unknown tool: '' @ name, isError = Some True \<rparr>
      | Some (Inr result) \<Rightarrow> \<lparr> contentText = result, isError = None \<rparr>
      | Some (Inl err) \<Rightarrow> \<lparr> contentText = ''Error: '' @ errMessage c err, isError = Some True \<rparr>)"
  by (simp add: callTool_def split: option.splits prod.splits sum.splits)

lemma numStr_3: "numStr 3 = ''3''"
  by (simp add: numStr_def digits.simps [of 3] digitChar_def)

lemma digits_21: "digits 21 = ''21''"
  by (simp add: digits.simps [of 21] digits.simps [of 2] digitChar_def)

lemma digits_1e21: "digits 1000000000000000000000 = ''1000000000000000000000''"
  by (simp add: digits.simps [of 1000000000000000000000] digits.simps [of 100000000000000000000] digits.simps [of 10000000000000000000] digits.simps [of 1000000000000000000] digits.simps [of 100000000000000000] digits.simps [of 10000000000000000] digits.simps [of 1000000000000000] digits.simps [of 100000000000000] digits.simps [of 10000000000000] digits.simps [of 1000000000000] digits.simps [of 100000000000] digits.simps [of 10000000000] digits.simps [of 1000000000] digits.simps [of 100000000] digits.simps [of 10000000] digits.simps [of 1000000] digits.simps [of 100000] digits.simps [of 10000] digits.simps [of 1000] digits.simps [of 100] digits.simps [of 10] digits.simps [of "Suc 0"] digitChar_def)

lemma exponentForm_1e21: "exponentForm ''1000000000000000000000'' = ''1e+21''"
proof -
  have len: "length ''1000000000000000000000'' = 22" by simp
  show ?thesis
    unfolding exponentForm_def len by (simp add: digits_21)
qed

lemma numStr_exponent: "numStr 1000000000000000000000 = ''1e+21''"
proof -
  have len: "length ''1000000000000000000000'' = 22" by simp
  have "numStr 1000000000000000000000 = exponentForm ''1000000000000000000000''"
    unfolding numStr_def by (simp add: digits_1e21 del: length_Cons list.size)
       (simp only: len, simp)
  then show ?thesis by (simp only: exponentForm_1e21)
qed

lemma countShipments_counting:
  "callTool (countingCtx \<lparr> statusCode = 200, retryAfterHeader = None,
                           jsonBody = Inr (JObj [(''count'', JNum 3)]) \<rparr>)
     ''chitchats_count_shipments'' JUndefined \<lparr> sent = xs, remoteState = n \<rparr>
   = (\<lparr> contentText = ''Total shipments: 3'', isError = None \<rparr>,
      \<lparr> sent = xs @ [\<lparr> url = ''https://chitchats.com/api/v1/clients/42/shipments/count'',
                        httpMethod = ''GET'',
                        headers = [(''Authorization'', ''secret''), (''Accept'', ''application/json'')],
                        payload = None \<rparr>],
        remoteState = Suc n \<rparr>)"
proof -
  let ?c = "countingCtx \<lparr> statusCode = 200, retryAfterHeader = None,
                           jsonBody = Inr (JObj [(''count'', JNum 3)]) \<rparr>"
  have p: "parse CountShipmentsSchema (orElse JUndefined (JObj [])) = Inr (JObj [])"
    by (simp add: parse_def CountShipmentsSchema_def orElse_def propOf_def getProp_def)
  have e: "withQuery ''/shipments/count'' (setIf (JObj []) ''status'') = ''/shipments/count''"
    by (simp add: withQuery_def setIf_def has_def onlyIf_def propOf_def getProp_def queryString_def)
  have o: "requestOptions ?c ''GET'' ''/shipments/count'' None =
            \<lparr> url = ''https://chitchats.com/api/v1/clients/42/shipments/count'', httpMethod = ''GET'',
              headers = [(''Authorization'', ''secret''), (''Accept'', ''application/json'')],
              payload = None \<rparr>"
    by (simp add: requestOptions_def countingCtx_def testEnv_def newClient_def BASE_URL_def
        CLIENT_ID_def ACCESS_TOKEN_def bodyGiven_def)
  have f: "\<And>rq. fetch ?c rq \<lparr> sent = xs, remoteState = n \<rparr>
             = (Responded \<lparr> statusCode = 200, retryAfterHeader = None,
                             jsonBody = Inr (JObj [(''count'', JNum 3)]) \<rparr>,
                \<lparr> sent = xs @ [rq], remoteState = Suc n \<rparr>)"
    by (simp add: fetch_def countingCtx_def)
  have g: "get ?c ''/shipments/count'' \<lparr> sent = xs, remoteState = n \<rparr>
             = (\<lparr> data = JObj [(''count'', JNum 3)], error = JUndefined, status = 200 \<rparr>,
                \<lparr> sent = xs @ [requestOptions ?c ''GET'' ''/shipments/count'' None],
                  remoteState = Suc n \<rparr>)"
    by (simp add: get_def request_def f ok_def)
  have t: "countShipmentsText ?c (JObj [])
             \<lparr> data = JObj [(''count'', JNum 3)], error = JUndefined, status = 200 \<rparr>
           = Inr ''Total shipments: 3''"
    by (simp add: countShipmentsText_def statusText_def has_def propOf_def getProp_def
        optProp_def nullish_def coalesce_def numStr_3)
  show ?thesis
    by (simp add: callTool_def switchName_def invoke_def p countShipments_def e g t o)
qed

text \<open>
  Claim C9. When the same tool is called twice with the same arguments and the remote
  answers every request the second time as it did the first, the two outcomes are the
  same text and the same flag, whatever else changed in the remote's state. This holds
  for every tool, so in particular for the read-only ones.
\<close>

theorem same_response_same_output:
  assumes "callTool c name args w = (r1, w1)"
      and "callTool c name args w1 = (r2, w2)"
      and "\<forall>rq. fst (remoteApi c (remoteState w) rq) = fst (remoteApi c (remoteState w1) rq)"
  shows "contentText r1 = contentText r2 \<and> isError r1 = isError r2"
proof -
  have "fst (callTool c name args w) = fst (callTool c name args w1)"
    by (simp only: callTool_fst switchName_same [OF assms(3)])
  with assms(1,2) show ?thesis by simp
qed

theorem same_response_same_output_witness:
  "callTool (countingCtx \<lparr> statusCode = 200, retryAfterHeader = None,
                           jsonBody = Inr (JObj [(''count'', JNum 3)]) \<rparr>)
     ''chitchats_count_shipments'' JUndefined \<lparr> sent = [], remoteState = 0 \<rparr>
   = (\<lparr> contentText = ''Total shipments: 3'', isError = None \<rparr>,
      \<lparr> sent = [\<lparr> url = ''https://chitchats.com/api/v1/clients/42/shipments/count'',
                        httpMethod = ''GET'',
                        headers = [(''Authorization'', ''secret''), (''Accept'', ''application/json'')],
                        payload = None \<rparr>],
        remoteState = Suc 0 \<rparr>)
   \<and> fst (callTool (countingCtx \<lparr> statusCode = 200, retryAfterHeader = None,
                           jsonBody = Inr (JObj [(''count'', JNum 3)]) \<rparr>)
     ''chitchats_count_shipments'' JUndefined
       \<lparr> sent = [\<lparr> url = ''https://chitchats.com/api/v1/clients/42/shipments/count'',
                        httpMethod = ''GET'',
                        headers = [(''Authorization'', ''secret''), (''Accept'', ''application/json'')],
                        payload = None \<rparr>],
        remoteState = Suc 0 \<rparr>)
     = \<lparr> contentText = ''Total shipments: 3'', isError = None \<rparr>"
proof -
  let ?c = "countingCtx \<lparr> statusCode = 200, retryAfterHeader = None,
                           jsonBody = Inr (JObj [(''count'', JNum 3)]) \<rparr>"
  let ?rq = "\<lparr> url = ''https://chitchats.com/api/v1/clients/42/shipments/count'',
                        httpMethod = ''GET'',
                        headers = [(''Authorization'', ''secret''), (''Accept'', ''application/json'')],
                        payload = None \<rparr>"
  let ?w = "\<lparr> sent = [], remoteState = 0::nat \<rparr>"
  let ?w1 = "\<lparr> sent = [?rq], remoteState = Suc 0 \<rparr>"
  let ?r = "\<lparr> contentText = ''Total shipments: 3'', isError = None \<rparr>"
  have a: "callTool ?c ''chitchats_count_shipments'' JUndefined ?w = (?r, ?w1)"
    using countShipments_counting [of "[]" 0] by simp
  obtain r2 w2 where b: "callTool ?c ''chitchats_count_shipments'' JUndefined ?w1 = (r2, w2)"
    by force
  have s: "\<forall>rq. fst (remoteApi ?c (remoteState ?w) rq) = fst (remoteApi ?c (remoteState ?w1) rq)"
    by (simp add: countingCtx_def)
  from same_response_same_output [OF a b s] b have "fst (callTool ?c ''chitchats_count_shipments'' JUndefined ?w1) = ?r"
    by (cases r2) simp
  with a show ?thesis by simp
qed

section \<open>Counting\<close>




end
